theory Spec2Isabelle
  imports Main "HOL-Library.Word" "HOL-Library.AList"
begin

section \<open>Values, errors and panics\<close>

text \<open>
  \<open>src/router/router.go\<close> holds two packages: \<open>router\<close> (lines 1-368), whose handlers
  take a pointer to a struct that the dispatcher fills by reflection (the binder, or strict,
  variant), and \<open>go_router\<close> (lines 369-649), whose handlers take the parameter map itself
  (the permissive variant). Definitions that are the same in both packages are given once;
  where the two differ, the plain name is the one of package \<open>router\<close> and the one of
  package \<open>go_router\<close> carries the suffix \<open>_go_router\<close>.

  Go strings are byte sequences, modelled as \<open>string\<close>. A Go \<open>error\<close> is either made by
  \<open>errors.New\<close>, a \<open>*strconv.NumError\<close>, or an error of another library (form parsing,
  reading the body, JSON). A panic carries either an error (\<open>panic(err)\<close>) or a
  run-time error of the Go runtime (index out of range, failed type assertion).
\<close>

type_synonym int64 = "64 word"

datatype num_err = ErrSyntax | ErrRange

datatype error = New string | NumError string string num_err | LibError string

datatype panic = PanicError error | RuntimeError string

text \<open>
  A value of type \<open>interface{}\<close>, as far as the packages meet one: what a path segment or a
  form field holds (a string), what \<open>json.Unmarshal\<close> stores (float64, string, bool, nil,
  array, object), and what the accessors also accept (int64). The type \<open>'f\<close> stands for
  \<open>float64\<close>: the packages never compute with a float, they only pass it on.
\<close>

datatype 'f iface =
    VString string
  | VInt64 int64
  | VFloat64 'f
  | VBool bool
  | VNil
  | VArray "'f iface list"
  | VObject "(string \<times> 'f iface) list"

text \<open>Package \<open>router\<close>: \<open>RequestParam struct { Value interface{} }\<close> (lines 54-56).\<close>

datatype 'f RequestParam = RequestParam (Value: "'f iface")

text \<open>
  \<open>Request map[string]*RequestParam\<close>. The map is an association list; \<open>req[k] = &t\<close> is
  \<open>AList.update k t req\<close> and a lookup is \<open>map_of req k\<close>.
\<close>

type_synonym 'f Request = "(string \<times> 'f RequestParam) list"

text \<open>
  Package \<open>go_router\<close>: \<open>RequestParam struct { Type string; Value interface{} }\<close>
  (lines 416-419) and the type tags \<open>INT\<close>, \<open>FLOAT\<close>, \<open>BOOL\<close>, \<open>STRING\<close>
  (lines 387-390; \<open>INT\<close> is taken in HOL, so the four carry the suffix \<open>_tag\<close>).
\<close>

record 'f RequestParam_go_router =
  Type :: string
  Value_go_router :: "'f iface"

type_synonym 'f Request_go_router = "(string \<times> 'f RequestParam_go_router) list"

definition INT_tag :: string where
  "INT_tag = ''{Int}''"

definition FLOAT_tag :: string where
  "FLOAT_tag = ''{Float}''"

definition BOOL_tag :: string where
  "BOOL_tag = ''{Bool}''"

definition STRING_tag :: string where
  "STRING_tag = ''{String}''"

definition JSON :: string where
  "JSON = ''application/json''"

section \<open>The library functions the packages call\<close>

subsection \<open>strings and html\<close>

text \<open>\<open>strings.TrimRight(s, cutset)\<close>: \<open>s\<close> without its trailing bytes that are in \<open>cutset\<close>.\<close>

definition TrimRight :: "string \<Rightarrow> string \<Rightarrow> string" where
  "TrimRight s cutset = rev (dropWhile (\<lambda>c. c \<in> set cutset) (rev s))"

text \<open>
  \<open>html.EscapeString\<close> replaces the five characters \<open>&\<close>, \<open>'\<close>, \<open><\<close>, \<open>>\<close> and \<open>"\<close>
  (bytes 0x26, 0x27, 0x3C, 0x3E, 0x22) by their entities and keeps every other byte.
\<close>

definition escape_byte :: "char \<Rightarrow> string" where
  "escape_byte c =
     (if c = CHR ''&'' then ''&amp;''
      else if c = CHR 0x27 then ''&#39;''
      else if c = CHR ''<'' then ''&lt;''
      else if c = CHR ''>'' then ''&gt;''
      else if c = CHR 0x22 then ''&#34;''
      else [c])"

definition EscapeString :: "string \<Rightarrow> string" where
  "EscapeString s = concat (map escape_byte s)"

text \<open>
  \<open>strings.Split(s, sep)\<close> for a separator of one byte: the pieces of \<open>s\<close> between the
  separators, one more piece than there are separators (so \<open>[""]\<close> for the empty string).
\<close>

fun Split :: "string \<Rightarrow> char \<Rightarrow> string list" where
  "Split [] sep = [[]]"
| "Split (c # cs) sep =
     (if c = sep then [] # Split cs sep
      else (case Split cs sep of [] \<Rightarrow> [[c]] | p # ps \<Rightarrow> (c # p) # ps))"

text \<open>\<open>strings.Join(elems, sep)\<close>.\<close>

fun Join :: "string list \<Rightarrow> string \<Rightarrow> string" where
  "Join [] sep = []"
| "Join [e] sep = e"
| "Join (e # es) sep = e @ sep @ Join es sep"

subsection \<open>strconv\<close>

text \<open>
  \<open>strconv.ParseInt(s, 10, 64)\<close>: an optional sign, then one or more decimal digits and
  nothing else (an underscore is accepted only with base 0); a syntax error otherwise, and a
  range error when the number is outside \<open>[-2^63, 2^63 - 1]\<close>.
\<close>

definition is_digit :: "char \<Rightarrow> bool" where
  "is_digit c = (of_char c \<ge> (48::nat) \<and> of_char c \<le> (57::nat))"

definition digits_value :: "string \<Rightarrow> nat" where
  "digits_value ds = foldl (\<lambda>n c. 10 * n + (of_char c - 48)) 0 ds"

definition ParseInt :: "string \<Rightarrow> error + int64" where
  "ParseInt s =
     (let neg = (s \<noteq> [] \<and> hd s = CHR ''-'');
          ds = (if s \<noteq> [] \<and> (hd s = CHR ''+'' \<or> hd s = CHR ''-'') then tl s else s)
      in if ds = [] \<or> \<not> list_all is_digit ds then Inl (NumError ''ParseInt'' s ErrSyntax)
         else let un = digits_value ds
              in if \<not> neg \<and> un \<ge> 2 ^ 63 then Inl (NumError ''ParseInt'' s ErrRange)
                 else if neg \<and> un > 2 ^ 63 then Inl (NumError ''ParseInt'' s ErrRange)
                 else Inr (if neg then - (word_of_nat un) else word_of_nat un))"

text \<open>\<open>strconv.ParseBool\<close> accepts exactly twelve spellings.\<close>

definition ParseBool :: "string \<Rightarrow> error + bool" where
  "ParseBool s =
     (if s \<in> set [''1'', ''t'', ''T'', ''TRUE'', ''true'', ''True''] then Inr True
      else if s \<in> set [''0'', ''f'', ''F'', ''FALSE'', ''false'', ''False''] then Inr False
      else Inl (NumError ''ParseBool'' s ErrSyntax))"

text \<open>
  What the packages take from the library and the language about \<open>float64\<close> and about
  runes. These are parameters of the model: \<open>strconv.ParseFloat(s, 64)\<close>, the conversions
  \<open>float64(n)\<close> and \<open>int64(x)\<close>, \<open>utf8.DecodeRuneInString\<close> (the rune and its width in
  bytes), \<open>unicode.ToUpper\<close> and the conversion \<open>string(rune)\<close>.
\<close>

record 'f golib =
  ParseFloat :: "string \<Rightarrow> error + 'f"
  float64_of_int64 :: "int64 \<Rightarrow> 'f"
  int64_of_float64 :: "'f \<Rightarrow> int64"
  DecodeRuneInString :: "string \<Rightarrow> nat \<times> nat"
  ToUpper :: "nat \<Rightarrow> nat"
  string_of_rune :: "nat \<Rightarrow> string"

section \<open>Package router: parameters\<close>

text \<open>\<open>upperFirst\<close> (lines 162-168).\<close>

definition upperFirst :: "'f golib \<Rightarrow> string \<Rightarrow> string" where
  "upperFirst L s =
     (if s = [] then []
      else (case DecodeRuneInString L s of
              (r, n) \<Rightarrow> string_of_rune L (ToUpper L r) @ drop n s))"

text \<open>
  The accessors \<open>int\<close>, \<open>float\<close> and \<open>bool\<close> of \<open>*RequestParam\<close> (lines 171-205): a type
  switch on the stored value, and \<open>errors.New("Not Found")\<close> when no case matches.
\<close>

fun RequestParam_int :: "'f golib \<Rightarrow> 'f RequestParam \<Rightarrow> error + int64" where
  "RequestParam_int L (RequestParam (VString s)) = ParseInt s"
| "RequestParam_int L (RequestParam (VInt64 n)) = Inr n"
| "RequestParam_int L (RequestParam (VFloat64 x)) = Inr (int64_of_float64 L x)"
| "RequestParam_int L (RequestParam _) = Inl (New ''Not Found'')"

fun RequestParam_float :: "'f golib \<Rightarrow> 'f RequestParam \<Rightarrow> error + 'f" where
  "RequestParam_float L (RequestParam (VString s)) = ParseFloat L s"
| "RequestParam_float L (RequestParam (VInt64 n)) = Inr (float64_of_int64 L n)"
| "RequestParam_float L (RequestParam (VFloat64 x)) = Inr x"
| "RequestParam_float L (RequestParam _) = Inl (New ''Not Found'')"

fun RequestParam_bool :: "'f RequestParam \<Rightarrow> error + bool" where
  "RequestParam_bool (RequestParam (VString s)) = ParseBool s"
| "RequestParam_bool (RequestParam (VBool b)) = Inr b"
| "RequestParam_bool (RequestParam _) = Inl (New ''Not Found'')"

section \<open>The request, the response and the registries\<close>

text \<open>
  What \<open>Dispatch\<close> reads of \<open>*http.Request\<close>: the method, \<open>r.URL.Path\<close>, the error
  that \<open>r.ParseForm()\<close> returns, the form it leaves in \<open>r.Form\<close>, and what
  \<open>ioutil.ReadAll(r.Body)\<close> returns. \<open>ParseForm\<close> never stores an empty list of values
  under a key, and \<open>parseForm\<close> reads only \<open>v[0]\<close>: \<open>Form\<close> gives each key with that
  first value. It lists the entries in the order in which the \<open>range\<close> statement of
  \<open>parseForm\<close> visits them; Go leaves the order open, and so does the model, since the
  list is arbitrary.
\<close>

record http_request =
  Method :: string
  URL_Path :: string
  ParseForm :: "error option"
  Form :: "(string \<times> string) list"
  Body :: "error + string"

text \<open>
  \<open>encoding/json\<close>: \<open>Unmarshal\<close> of the body into a \<open>map[string]interface{}\<close> (the
  entries in the order in which \<open>parseBody\<close> visits them), and \<open>Marshal\<close> of what a
  handler returns, a value of some type \<open>'r\<close>.
\<close>

record ('f, 'r) json =
  Unmarshal :: "string \<Rightarrow> error + (string \<times> 'f iface) list"
  Marshal :: "'r \<Rightarrow> error + string"

text \<open>
  \<open>http.ResponseWriter\<close>: the header map, the status code (fixed by the first
  \<open>WriteHeader\<close>; a later call changes nothing, and a \<open>Write\<close> before any
  \<open>WriteHeader\<close> sends 200) and the bytes written to the body.
\<close>

record ResponseWriter =
  Header :: "(string \<times> string) list"
  Status :: "nat option"
  Written :: string

definition Header_Set :: "string \<Rightarrow> string \<Rightarrow> ResponseWriter \<Rightarrow> ResponseWriter" where
  "Header_Set k v w = w\<lparr>Header := AList.update k v (Header w)\<rparr>"

definition WriteHeader :: "nat \<Rightarrow> ResponseWriter \<Rightarrow> ResponseWriter" where
  "WriteHeader code w = (if Status w = None then w\<lparr>Status := Some code\<rparr> else w)"

definition Write :: "string \<Rightarrow> ResponseWriter \<Rightarrow> ResponseWriter" where
  "Write b w = (let w' = WriteHeader 200 w in w'\<lparr>Written := Written w' @ b\<rparr>)"

definition StatusNotFound :: nat where
  "StatusNotFound = 404"

definition StatusInternalServerError :: nat where
  "StatusInternalServerError = 500"

text \<open>\<open>notFound\<close>, \<open>notSupported\<close> and \<open>internalError\<close> (lines 75-90, 453-468).\<close>

definition notFound :: "ResponseWriter \<Rightarrow> ResponseWriter" where
  "notFound w = Write (''Resource Not Found.'' @ [CHR 0x0A]) (WriteHeader StatusNotFound w)"

definition notSupported :: "ResponseWriter \<Rightarrow> ResponseWriter" where
  "notSupported w =
     Write (''Request Method  is not supported.'' @ [CHR 0x0A]) (WriteHeader StatusNotFound w)"

definition internalError :: "ResponseWriter \<Rightarrow> ResponseWriter" where
  "internalError w =
     Write (''Internal Server Error.'' @ [CHR 0x0A]) (WriteHeader StatusInternalServerError w)"

text \<open>
  The route registry \<open>routes\<close>, a \<open>map[string]map[string]Node\<close>, with \<open>getNode\<close>
  (lines 65-72, 443-450) and \<open>RegisterRoute\<close> (lines 267-283, 568-584). \<open>RegisterRoute\<close>
  returns the error, or the registry after the call. \<open>RegisterRoutes\<close> makes a sequence of
  calls; a call that fails leaves the registry as it was.
\<close>

type_synonym 'n routeMap = "string \<rightharpoonup> (string \<rightharpoonup> 'n)"

definition getNode :: "'n routeMap \<Rightarrow> string \<Rightarrow> string \<Rightarrow> error + 'n" where
  "getNode routes method path =
     (case routes method of
        Some nodes \<Rightarrow> (case nodes path of Some v \<Rightarrow> Inr v | None \<Rightarrow> Inl (New ''No Handler Found''))
      | None \<Rightarrow> Inl (New ''No Handler Found''))"

definition registered :: "'n routeMap \<Rightarrow> string \<Rightarrow> string \<Rightarrow> bool" where
  "registered routes method path =
     (case routes method of Some nodes \<Rightarrow> nodes path \<noteq> None | None \<Rightarrow> False)"

definition RegisterRoute :: "string \<Rightarrow> string \<Rightarrow> 'n \<Rightarrow> 'n routeMap \<Rightarrow> error + 'n routeMap" where
  "RegisterRoute method path n routes =
     (if registered routes method path
      then Inl (New ''Route path has already been registered'')
      else (case routes method of
              None \<Rightarrow> Inr (routes(method \<mapsto> Map.empty(path \<mapsto> n)))
            | Some nodes \<Rightarrow> Inr (routes(method \<mapsto> nodes(path \<mapsto> n)))))"

fun RegisterRoutes :: "(string \<times> string \<times> 'n) list \<Rightarrow> 'n routeMap \<Rightarrow> 'n routeMap" where
  "RegisterRoutes [] routes = routes"
| "RegisterRoutes ((method, path, n) # calls) routes =
     (case RegisterRoute method path n routes of
        Inl err \<Rightarrow> RegisterRoutes calls routes
      | Inr routes' \<Rightarrow> RegisterRoutes calls routes')"

text \<open>
  A \<open>Filter\<close> (lines 49-53, 405-409). A hook gets the request by pointer and the parameter
  map, which is a reference: it returns the two as it leaves them, and its error. \<open>'q\<close> is
  the type of the parameter map of the package.
\<close>

record 'q Filter =
  PreDispatch :: "http_request \<Rightarrow> 'q \<Rightarrow> http_request \<times> 'q \<times> error option"
  PostDispatch :: "http_request \<Rightarrow> 'q \<Rightarrow> http_request \<times> 'q \<times> error option"

text \<open>
  What a dispatch does besides writing the response is recorded as a list of events: a
  lookup in the route registry, a call of the pre- or post-dispatch hook of the filter
  registered under a name with the error it returned, the call of the handler with its
  argument and the error it returned, and the call of \<open>json.Marshal\<close> with its error.
\<close>

datatype 'c event =
    Lookup string string
  | Pre string "error option"
  | Post string "error option"
  | Invoke 'c "error option"
  | Serialize "error option"

text \<open>
  \<open>preDispatch\<close> and \<open>postDispatch\<close> (lines 140-159, 516-535), over the entries of
  \<open>filters\<close> in the order in which the \<open>range\<close> statement visits them. The result is the
  error, the request and the parameter map as the hooks leave them, and the hooks called.
\<close>

fun preDispatch :: "(string \<times> 'q Filter) list \<Rightarrow> http_request \<Rightarrow> 'q
    \<Rightarrow> error option \<times> http_request \<times> 'q \<times> 'c event list" where
  "preDispatch [] r req = (None, r, req, [])"
| "preDispatch ((name, v) # fs) r req =
     (case PreDispatch v r req of
        (r', req', Some err) \<Rightarrow> (Some err, r', req', [Pre name (Some err)])
      | (r', req', None) \<Rightarrow>
          (case preDispatch fs r' req' of
             (err, r'', req'', evs) \<Rightarrow> (err, r'', req'', Pre name None # evs)))"

fun postDispatch :: "(string \<times> 'q Filter) list \<Rightarrow> http_request \<Rightarrow> 'q
    \<Rightarrow> error option \<times> http_request \<times> 'q \<times> 'c event list" where
  "postDispatch [] r req = (None, r, req, [])"
| "postDispatch ((name, v) # fs) r req =
     (case PostDispatch v r req of
        (r', req', Some err) \<Rightarrow> (Some err, r', req', [Post name (Some err)])
      | (r', req', None) \<Rightarrow>
          (case postDispatch fs r' req' of
             (err, r'', req'', evs) \<Rightarrow> (err, r'', req'', Post name None # evs)))"

text \<open>What a dispatch leaves: the response, the events, and the value that \<open>recover()\<close>
  returned in the deferred function, if the body of \<open>Dispatch\<close> panicked.\<close>

record 'c outcome =
  response :: ResponseWriter
  trace :: "'c event list"
  recovered :: "panic option"

section \<open>Package router: path parser, form, body\<close>

text \<open>
  \<open>parseGet\<close> (lines 95-107). \<open>segments\<close> is the slice \<open>s\<close> of the source;
  \<open>parseGet_loop\<close> is the \<open>for\<close> loop, started at \<open>i = 4\<close>.
\<close>

definition segments :: "string \<Rightarrow> string list" where
  "segments path = Split (EscapeString (TrimRight path ''/'')) CHR ''/''"

function parseGet_loop :: "string list \<Rightarrow> nat \<Rightarrow> 'f Request \<Rightarrow> 'f Request" where
  "parseGet_loop s i req =
     (if i < length s - 1
      then parseGet_loop s (i + 2) (AList.update (s ! i) (RequestParam (VString (s ! (i + 1)))) req)
      else req)"
  by pat_completeness auto
termination
  by (relation "measure (\<lambda>(s, i, req). length s - i)") auto

declare parseGet_loop.simps [simp del]

definition parseGet :: "http_request \<Rightarrow> 'f Request \<Rightarrow> error + (string \<times> 'f Request)" where
  "parseGet r req =
     (let s = segments (URL_Path r); l = length s
      in if l \<le> 3 \<or> l mod 2 \<noteq> 0 then Inl (New ''Not Found'')
         else Inr (Join (take 4 s) ''/'', parseGet_loop s 4 req))"

text \<open>\<open>parseForm\<close> (lines 111-117) and \<open>parseBody\<close> (lines 121-137).\<close>

definition parseForm :: "http_request \<Rightarrow> 'f Request \<Rightarrow> 'f Request" where
  "parseForm r req = fold (\<lambda>(k, v). AList.update k (RequestParam (VString v))) (Form r) req"

definition parseBody :: "('f, 'r) json \<Rightarrow> http_request \<Rightarrow> 'f Request \<Rightarrow> error + 'f Request" where
  "parseBody J r req =
     (case Body r of
        Inl err \<Rightarrow> Inl err
      | Inr body \<Rightarrow>
          (case Unmarshal J body of
             Inl err \<Rightarrow> Inl err
           | Inr i \<Rightarrow> Inr (fold (\<lambda>(k, v). AList.update k (RequestParam v)) i req)))"

section \<open>Package router: the binder\<close>

text \<open>
  A \<open>Node\<close> of package \<open>router\<close> is a function \<open>func(*T) (R, error)\<close> for a struct type
  \<open>T\<close> (lines 34-46). \<open>FieldByName\<close> gives, for a name, the kind of the field of \<open>T\<close> of
  that name, if there is one; \<open>Call\<close> is the function. The struct that \<open>setInputParam\<close>
  builds is the list of the fields it has set, each with its value; a field that is not in
  the list has the zero value of its type. A field that \<open>FieldByName\<close> finds is taken to
  be settable; a \<open>Node\<close> that is not such a function makes \<open>reflect\<close> panic, which is
  outside the model.
\<close>

datatype kind = Kind_Int64 | Kind_Float64 | Kind_Bool | Kind_String | Kind_Other

type_synonym 'f container = "(string \<times> 'f iface) list"

record ('f, 'r) Node =
  FieldByName :: "string \<Rightarrow> kind option"
  Call :: "'f container \<Rightarrow> 'r \<times> error option"

text \<open>
  \<open>setInputParam\<close> (lines 208-243). The loop runs over the entries of \<open>req\<close> in the order
  in which \<open>range\<close> visits them. It ends with the struct, with an error, or with the panic
  of the type assertion \<open>v.Value.(string)\<close> on a value that is not a string.
\<close>

fun setInputParam_loop :: "'f golib \<Rightarrow> (string \<Rightarrow> kind option) \<Rightarrow> 'f Request \<Rightarrow> 'f container
    \<Rightarrow> panic + (error + 'f container)" where
  "setInputParam_loop L fld [] t = Inr (Inr t)"
| "setInputParam_loop L fld ((k0, v) # rest) t =
     (let k = upperFirst L k0
      in case fld k of
           None \<Rightarrow> Inr (Inl (New ''Not Found''))
         | Some Kind_Int64 \<Rightarrow>
             (case RequestParam_int L v of
                Inl err \<Rightarrow> Inr (Inl err)
              | Inr val \<Rightarrow> setInputParam_loop L fld rest (AList.update k (VInt64 val) t))
         | Some Kind_Float64 \<Rightarrow>
             (case RequestParam_float L v of
                Inl err \<Rightarrow> Inr (Inl err)
              | Inr val \<Rightarrow> setInputParam_loop L fld rest (AList.update k (VFloat64 val) t))
         | Some Kind_Bool \<Rightarrow>
             (case RequestParam_bool v of
                Inl err \<Rightarrow> Inr (Inl err)
              | Inr val \<Rightarrow> setInputParam_loop L fld rest (AList.update k (VBool val) t))
         | Some Kind_String \<Rightarrow>
             (case Value v of
                VString str \<Rightarrow> setInputParam_loop L fld rest (AList.update k (VString str) t)
              | _ \<Rightarrow> Inl (RuntimeError ''interface conversion: interface {} is not string''))
         | Some Kind_Other \<Rightarrow> Inr (Inl (New ''Not Found'')))"

text \<open>
  The registries of package \<open>router\<close>: the routes, the entries of \<open>filters\<close> in the order
  in which the \<open>range\<close> of \<open>preDispatch\<close> and that of \<open>postDispatch\<close> visit them (two
  lists, since each \<open>range\<close> has an order of its own), and the order in which the
  \<open>range\<close> of \<open>setInputParam\<close> visits the entries of the parameter map.
\<close>

record ('f, 'r) globals =
  routes :: "('f, 'r) Node routeMap"
  filters_pre :: "(string \<times> 'f Request Filter) list"
  filters_post :: "(string \<times> 'f Request Filter) list"
  range_req :: "'f Request \<Rightarrow> 'f Request"

definition setInputParam :: "'f golib \<Rightarrow> ('f, 'r) globals \<Rightarrow> ('f, 'r) Node \<Rightarrow> 'f Request
    \<Rightarrow> panic + (error + 'f container)" where
  "setInputParam L G i req = setInputParam_loop L (FieldByName i) (range_req G req) []"

section \<open>Package router: Dispatch\<close>

text \<open>
  \<open>Dispatch\<close> (lines 293-368), in three parts that follow one another in the source.
  Each part gives the panic that ends it, if there is one, the response writer and the
  events. \<open>Dispatch_bound\<close> is lines 342-367: the form is merged, the pre-dispatch
  filters run, the handler is called, the post-dispatch filters run, the result is
  serialised and written.
\<close>

definition Dispatch_bound :: "('f, 'r) json \<Rightarrow> ('f, 'r) globals \<Rightarrow> http_request
    \<Rightarrow> ('f, 'r) Node \<Rightarrow> 'f container \<Rightarrow> 'f Request \<Rightarrow> ResponseWriter
    \<Rightarrow> (panic + unit) \<times> ResponseWriter \<times> 'f container event list" where
  "Dispatch_bound J G r i t req w =
     (case preDispatch (filters_pre G) r (parseForm r req) of
        (Some err, r1, req1, pre) \<Rightarrow> (Inl (PanicError err), w, pre)
      | (None, r1, req1, pre) \<Rightarrow>
          (case Call i t of
             (res, Some err) \<Rightarrow> (Inl (PanicError err), w, pre @ [Invoke t (Some err)])
           | (res, None) \<Rightarrow>
               (case postDispatch (filters_post G) r1 req1 of
                  (Some err, r2, req2, post) \<Rightarrow>
                    (Inl (PanicError err), w, pre @ [Invoke t None] @ post)
                | (None, r2, req2, post) \<Rightarrow>
                    (case Marshal J res of
                       Inl err \<Rightarrow>
                         (Inl (PanicError err), w,
                          pre @ [Invoke t None] @ post @ [Serialize (Some err)])
                     | Inr data \<Rightarrow>
                         (Inr (), Write data w,
                          pre @ [Invoke t None] @ post @ [Serialize None])))))"

text \<open>\<open>Dispatch_routed\<close> is lines 331-341: the handler is looked up and its input is bound.\<close>

definition Dispatch_routed :: "'f golib \<Rightarrow> ('f, 'r) json \<Rightarrow> ('f, 'r) globals \<Rightarrow> http_request
    \<Rightarrow> string \<Rightarrow> 'f Request \<Rightarrow> ResponseWriter
    \<Rightarrow> (panic + unit) \<times> ResponseWriter \<times> 'f container event list" where
  "Dispatch_routed L J G r routeKey req w =
     (case getNode (routes G) (Method r) routeKey of
        Inl err \<Rightarrow> (Inr (), notFound w, [Lookup (Method r) routeKey])
      | Inr c \<Rightarrow>
          (case setInputParam L G c req of
             Inl p \<Rightarrow> (Inl p, w, [Lookup (Method r) routeKey])
           | Inr (Inl err) \<Rightarrow> (Inr (), notFound w, [Lookup (Method r) routeKey])
           | Inr (Inr t) \<Rightarrow>
               (case Dispatch_bound J G r c t req w of
                  (res, w', evs) \<Rightarrow> (res, w', Lookup (Method r) routeKey # evs))))"

text \<open>\<open>Dispatch_body\<close> is lines 307-329: the form is parsed, then the switch on the method.\<close>

definition Dispatch_body :: "'f golib \<Rightarrow> ('f, 'r) json \<Rightarrow> ('f, 'r) globals \<Rightarrow> http_request
    \<Rightarrow> ResponseWriter \<Rightarrow> (panic + unit) \<times> ResponseWriter \<times> 'f container event list" where
  "Dispatch_body L J G r w =
     (case ParseForm r of
        Some err \<Rightarrow> (Inl (PanicError err), w, [])
      | None \<Rightarrow>
          if Method r = ''GET'' \<or> Method r = ''DELETE'' then
            (case parseGet r [] of
               Inl err \<Rightarrow> (Inr (), notFound w, [])
             | Inr (routeKey, req) \<Rightarrow> Dispatch_routed L J G r routeKey req w)
          else if Method r = ''POST'' then
            (case parseBody J r [] of
               Inl err \<Rightarrow> (Inl (PanicError err), w, [])
             | Inr req \<Rightarrow> Dispatch_routed L J G r (URL_Path r) req w)
          else (Inr (), notSupported w, []))"

text \<open>
  \<open>Dispatch\<close>: the header is set, the body runs, and the deferred function (lines 298-306)
  answers a panic of the body with \<open>internalError\<close>.
\<close>

definition Dispatch :: "'f golib \<Rightarrow> ('f, 'r) json \<Rightarrow> ('f, 'r) globals \<Rightarrow> ResponseWriter
    \<Rightarrow> http_request \<Rightarrow> 'f container outcome" where
  "Dispatch L J G w r =
     (case Dispatch_body L J G r (Header_Set ''Content-Type'' JSON w) of
        (Inl p, w', evs) \<Rightarrow> \<lparr>response = internalError w', trace = evs, recovered = Some p\<rparr>
      | (Inr u, w', evs) \<Rightarrow> \<lparr>response = w', trace = evs, recovered = None\<rparr>)"

section \<open>Package go\_router\<close>

text \<open>\<open>toParam\<close> (lines 429-440).\<close>

definition toParam :: "'f golib \<Rightarrow> string \<Rightarrow> 'f RequestParam_go_router" where
  "toParam L i =
     (case ParseInt i of
        Inr v \<Rightarrow> \<lparr>Type = INT_tag, Value_go_router = VInt64 v\<rparr>
      | Inl _ \<Rightarrow>
          (case ParseFloat L i of
             Inr v \<Rightarrow> \<lparr>Type = FLOAT_tag, Value_go_router = VFloat64 v\<rparr>
           | Inl _ \<Rightarrow>
               (case ParseBool i of
                  Inr v \<Rightarrow> \<lparr>Type = BOOL_tag, Value_go_router = VBool v\<rparr>
                | Inl _ \<Rightarrow> \<lparr>Type = STRING_tag, Value_go_router = VString i\<rparr>)))"

text \<open>
  \<open>parseGet\<close> (lines 473-483). The loop reads \<open>s[i+1]\<close> for every \<open>i < l\<close>: when
  \<open>i + 1 = l\<close> the index is out of range and the function panics.
\<close>

function parseGet_loop_go_router :: "'f golib \<Rightarrow> string list \<Rightarrow> nat \<Rightarrow> 'f Request_go_router
    \<Rightarrow> panic + (string list \<times> 'f Request_go_router)" where
  "parseGet_loop_go_router L s i req =
     (if i < length s
      then (if i + 1 < length s
            then parseGet_loop_go_router L (s[i + 1 := Type (toParam L (s ! (i + 1)))]) (i + 2)
                   (AList.update (s ! i) (toParam L (s ! (i + 1))) req)
            else Inl (RuntimeError ''index out of range''))
      else Inr (s, req))"
  by pat_completeness auto
termination
  by (relation "measure (\<lambda>(L, s, i, req). length s - i)") auto

declare parseGet_loop_go_router.simps [simp del]

definition parseGet_go_router :: "'f golib \<Rightarrow> http_request \<Rightarrow> 'f Request_go_router
    \<Rightarrow> panic + (string \<times> 'f Request_go_router)" where
  "parseGet_go_router L r req =
     (case parseGet_loop_go_router L (segments (URL_Path r)) 4 req of
        Inl p \<Rightarrow> Inl p
      | Inr (s, req') \<Rightarrow> Inr (Join s ''/'', req'))"

text \<open>\<open>parseForm\<close> (lines 487-493) and \<open>parseBody\<close> (lines 497-513).\<close>

definition parseForm_go_router :: "'f golib \<Rightarrow> http_request \<Rightarrow> 'f Request_go_router
    \<Rightarrow> 'f Request_go_router" where
  "parseForm_go_router L r req = fold (\<lambda>(k, v). AList.update k (toParam L v)) (Form r) req"

definition parseBody_go_router :: "('f, 'r) json \<Rightarrow> http_request \<Rightarrow> 'f Request_go_router
    \<Rightarrow> error + 'f Request_go_router" where
  "parseBody_go_router J r req =
     (case Body r of
        Inl err \<Rightarrow> Inl err
      | Inr body \<Rightarrow>
          (case Unmarshal J body of
             Inl err \<Rightarrow> Inl err
           | Inr i \<Rightarrow>
               Inr (fold (\<lambda>(k, v). AList.update k \<lparr>Type = [], Value_go_router = v\<rparr>) i req)))"

text \<open>
  A \<open>Node\<close> of package \<open>go_router\<close> is a function from the parameter map to a result and
  an error; the map is a reference, so the function also returns it as it leaves it.
\<close>

type_synonym ('f, 'r) Node_go_router =
  "'f Request_go_router \<Rightarrow> 'r \<times> error option \<times> 'f Request_go_router"

record ('f, 'r) globals_go_router =
  routes_go_router :: "('f, 'r) Node_go_router routeMap"
  filters_pre_go_router :: "(string \<times> 'f Request_go_router Filter) list"
  filters_post_go_router :: "(string \<times> 'f Request_go_router Filter) list"

text \<open>
  \<open>Dispatch\<close> (lines 588-649). \<open>Dispatch_filtered_go_router\<close> is lines 620-648, which
  follow the switch on the method; the \<open>default\<close> case of the switch (lines 617-618) calls
  \<open>notSupported\<close> and goes on to them, with the empty route key and the empty map.
\<close>

definition Dispatch_filtered_go_router :: "('f, 'r) json \<Rightarrow> ('f, 'r) globals_go_router
    \<Rightarrow> http_request \<Rightarrow> string \<Rightarrow> 'f Request_go_router \<Rightarrow> ResponseWriter
    \<Rightarrow> (panic + unit) \<times> ResponseWriter \<times> 'f Request_go_router event list" where
  "Dispatch_filtered_go_router J G r routeKey req w =
     (case preDispatch (filters_pre_go_router G) r req of
        (Some err, r1, req1, pre) \<Rightarrow> (Inl (PanicError err), w, pre)
      | (None, r1, req1, pre) \<Rightarrow>
          (case getNode (routes_go_router G) (Method r1) routeKey of
             Inl err \<Rightarrow> (Inr (), notFound w, pre @ [Lookup (Method r1) routeKey])
           | Inr c \<Rightarrow>
               (case c req1 of
                  (res, Some err, req2) \<Rightarrow>
                    (Inl (PanicError err), w,
                     pre @ [Lookup (Method r1) routeKey, Invoke req1 (Some err)])
                | (res, None, req2) \<Rightarrow>
                    (case postDispatch (filters_post_go_router G) r1 req2 of
                       (Some err, r3, req3, post) \<Rightarrow>
                         (Inl (PanicError err), w,
                          pre @ [Lookup (Method r1) routeKey, Invoke req1 None] @ post)
                     | (None, r3, req3, post) \<Rightarrow>
                         (case Marshal J res of
                            Inl err \<Rightarrow>
                              (Inl (PanicError err), w,
                               pre @ [Lookup (Method r1) routeKey, Invoke req1 None] @ post
                                 @ [Serialize (Some err)])
                          | Inr data \<Rightarrow>
                              (Inr (), Write data w,
                               pre @ [Lookup (Method r1) routeKey, Invoke req1 None] @ post
                                 @ [Serialize None]))))))"

definition Dispatch_body_go_router :: "'f golib \<Rightarrow> ('f, 'r) json \<Rightarrow> ('f, 'r) globals_go_router
    \<Rightarrow> http_request \<Rightarrow> ResponseWriter
    \<Rightarrow> (panic + unit) \<times> ResponseWriter \<times> 'f Request_go_router event list" where
  "Dispatch_body_go_router L J G r w =
     (case ParseForm r of
        Some err \<Rightarrow> (Inl (PanicError err), w, [])
      | None \<Rightarrow>
          if Method r = ''GET'' \<or> Method r = ''DELETE'' then
            (case parseGet_go_router L r [] of
               Inl p \<Rightarrow> (Inl p, w, [])
             | Inr (routeKey, req) \<Rightarrow>
                 Dispatch_filtered_go_router J G r routeKey (parseForm_go_router L r req) w)
          else if Method r = ''POST'' then
            (case parseBody_go_router J r [] of
               Inl err \<Rightarrow> (Inl (PanicError err), w, [])
             | Inr req \<Rightarrow>
                 Dispatch_filtered_go_router J G r (URL_Path r) (parseForm_go_router L r req) w)
          else Dispatch_filtered_go_router J G r [] [] (notSupported w))"

definition Dispatch_go_router :: "'f golib \<Rightarrow> ('f, 'r) json \<Rightarrow> ('f, 'r) globals_go_router
    \<Rightarrow> ResponseWriter \<Rightarrow> http_request \<Rightarrow> 'f Request_go_router outcome" where
  "Dispatch_go_router L J G w r =
     (case Dispatch_body_go_router L J G r (Header_Set ''Content-Type'' JSON w) of
        (Inl p, w', evs) \<Rightarrow> \<lparr>response = internalError w', trace = evs, recovered = Some p\<rparr>
      | (Inr u, w', evs) \<Rightarrow> \<lparr>response = w', trace = evs, recovered = None\<rparr>)"

section \<open>Sample requests\<close>

text \<open>Concrete requests on which the model is evaluated below.\<close>

definition sample_get :: http_request where
  "sample_get = \<lparr>Method = ''GET'', URL_Path = ''/v1/test/retrieve/id/42/id/7'', ParseForm = None,
      Form = [], Body = Inr []\<rparr>"

definition sample_get_odd :: http_request where
  "sample_get_odd = \<lparr>Method = ''GET'', URL_Path = ''/v1/test/retrieve/id'', ParseForm = None,
      Form = [], Body = Inr []\<rparr>"

text \<open>
  A stand-in for the library parameters, on ASCII and on unsigned decimal literals: a
  float is kept as its digits and the number of digits after the point.
\<close>

definition sample_ParseFloat :: "string \<Rightarrow> error + (nat \<times> nat)" where
  "sample_ParseFloat s =
     (let ip = takeWhile (\<lambda>c. c \<noteq> CHR ''.'') s; fp = drop (length ip + 1) s
      in if ip \<noteq> [] \<and> list_all is_digit ip \<and> list_all is_digit fp
         then Inr (digits_value (ip @ fp), length fp)
         else Inl (NumError ''ParseFloat'' s ErrSyntax))"

definition sample_lib :: "(nat \<times> nat) golib" where
  "sample_lib =
     \<lparr>ParseFloat = sample_ParseFloat,
      float64_of_int64 = (\<lambda>n. (unat n, 0)),
      int64_of_float64 = (\<lambda>(m, d). word_of_nat (m div 10 ^ d)),
      DecodeRuneInString = (\<lambda>s. (of_char (hd s), 1)),
      ToUpper = (\<lambda>r. if 97 \<le> r \<and> r \<le> 122 then r - 32 else r),
      string_of_rune = (\<lambda>r. [char_of r])\<rparr>"

text \<open>
  A stand-in for \<open>encoding/json\<close> that decodes the one body \<open>{"name": 5}\<close> and encodes
  a string as it is.
\<close>

definition sample_body :: string where
  "sample_body = ''{'' @ [CHR 0x22] @ ''name'' @ [CHR 0x22] @ '': 5}''"

definition sample_json :: "(nat \<times> nat, string) json" where
  "sample_json =
     \<lparr>Unmarshal = (\<lambda>b. if b = sample_body then Inr [(''name'', VFloat64 (5, 0))]
                        else Inl (LibError ''invalid character'')),
      Marshal = (\<lambda>res. Inr res)\<rparr>"

definition new_writer :: ResponseWriter where
  "new_writer = \<lparr>Header = [], Status = None, Written = []\<rparr>"

text \<open>
  A handler of package \<open>router\<close> for the struct \<open>{ Id int64; Name string }\<close> that returns
  \<open>"user"\<close>, a filter whose hooks return no error and one whose pre-dispatch hook returns
  an error, and registries built from them.
\<close>

definition sample_node :: "(nat \<times> nat, string) Node" where
  "sample_node =
     \<lparr>FieldByName = (\<lambda>k. if k = ''Id'' then Some Kind_Int64
                          else if k = ''Name'' then Some Kind_String else None),
      Call = (\<lambda>t. (''user'', None))\<rparr>"

definition pass_filter :: "'q Filter" where
  "pass_filter =
     \<lparr>PreDispatch = (\<lambda>r req. (r, req, None)), PostDispatch = (\<lambda>r req. (r, req, None))\<rparr>"

definition deny_filter :: "'q Filter" where
  "deny_filter =
     \<lparr>PreDispatch = (\<lambda>r req. (r, req, Some (New ''denied''))),
      PostDispatch = (\<lambda>r req. (r, req, None))\<rparr>"

definition sample_routes :: "(nat \<times> nat, string) Node routeMap" where
  "sample_routes =
     [''GET'' \<mapsto> [''/v1/test/retrieve'' \<mapsto> sample_node],
      ''POST'' \<mapsto> [''/v1/test/save'' \<mapsto> sample_node]]"

definition sample_globals :: "(nat \<times> nat, string) globals" where
  "sample_globals =
     \<lparr>routes = sample_routes, filters_pre = [(''log'', pass_filter)],
      filters_post = [(''log'', pass_filter)], range_req = (\<lambda>req. req)\<rparr>"

definition sample_globals_deny :: "(nat \<times> nat, string) globals" where
  "sample_globals_deny =
     \<lparr>routes = sample_routes, filters_pre = [(''log'', pass_filter), (''auth'', deny_filter)],
      filters_post = [(''log'', pass_filter), (''auth'', deny_filter)],
      range_req = (\<lambda>req. req)\<rparr>"

definition sample_globals_go_router :: "(nat \<times> nat, string) globals_go_router" where
  "sample_globals_go_router =
     \<lparr>routes_go_router = Map.empty, filters_pre_go_router = [(''log'', pass_filter)],
      filters_post_go_router = [(''log'', pass_filter)]\<rparr>"

text \<open>
  Requests: a GET for the registered route with the form field \<open>Id=5\<close>, the same with the
  parameter in the path, a POST of \<open>{"name": 5}\<close>, a PUT, and a PUT whose form does not
  parse.
\<close>

definition sample_get_form :: http_request where
  "sample_get_form = \<lparr>Method = ''GET'', URL_Path = ''/v1/test/retrieve'', ParseForm = None,
      Form = [(''Id'', ''5'')], Body = Inr []\<rparr>"

definition sample_get_path :: http_request where
  "sample_get_path = \<lparr>Method = ''GET'', URL_Path = ''/v1/test/retrieve/id/5'', ParseForm = None,
      Form = [], Body = Inr []\<rparr>"

definition sample_post :: http_request where
  "sample_post = \<lparr>Method = ''POST'', URL_Path = ''/v1/test/save'', ParseForm = None,
      Form = [], Body = Inr sample_body\<rparr>"

definition sample_put :: http_request where
  "sample_put = \<lparr>Method = ''PUT'', URL_Path = ''/v1/test/save'', ParseForm = None,
      Form = [], Body = Inr []\<rparr>"

definition sample_put_bad_form :: http_request where
  "sample_put_bad_form = \<lparr>Method = ''PUT'', URL_Path = ''/v1/test/save'',
      ParseForm = Some (LibError ''invalid URL escape''), Form = [], Body = Inr []\<rparr>"

section \<open>Auxiliary notions for stating the properties\<close>

text \<open>The events of a run of hooks that all return no error.\<close>

definition pre_ok :: "(string \<times> 'q Filter) list \<Rightarrow> 'c event list" where
  "pre_ok fs = map (\<lambda>x. Pre (fst x) None) fs"

definition post_ok :: "(string \<times> 'q Filter) list \<Rightarrow> 'c event list" where
  "post_ok fs = map (\<lambda>x. Post (fst x) None) fs"

text \<open>
  \<open>parsed J r key req\<close>: lines 312-325 of \<open>Dispatch\<close> give the route key \<open>key\<close> and the
  parameter map \<open>req\<close>, from the path for GET and DELETE, from the body for POST.
\<close>

definition parsed :: "('f, 'r) json \<Rightarrow> http_request \<Rightarrow> string \<Rightarrow> 'f Request \<Rightarrow> bool" where
  "parsed J r key req =
     (((Method r = ''GET'' \<or> Method r = ''DELETE'') \<and> parseGet r [] = Inr (key, req))
      \<or> (Method r = ''POST'' \<and> key = URL_Path r \<and> parseBody J r [] = Inr req))"

section \<open>Properties of the path parser\<close>

lemma upt_filter_step:
  assumes "i < n"
  shows "[j \<leftarrow> [i..<n]. even (j - i)] = i # [j \<leftarrow> [i + 2..<n]. even (j - (i + 2))]"
proof -
  have a: "[i..<n] = i # [Suc i..<n]" using assms by (simp add: upt_conv_Cons)
  show ?thesis
  proof (cases "Suc i < n")
    case True
    then have b: "[Suc i..<n] = Suc i # [i + 2..<n]" by (simp add: upt_conv_Cons)
    have "[j \<leftarrow> [i + 2..<n]. even (j - i)] = [j \<leftarrow> [i + 2..<n]. even (j - (i + 2))]"
      by (rule filter_cong) auto
    then show ?thesis using a b by simp
  next
    case False
    then show ?thesis using a by simp
  qed
qed

lemma parseGet_loop_fold:
  "parseGet_loop s i req =
     fold (\<lambda>j. AList.update (s ! j) (RequestParam (VString (s ! (j + 1)))))
          [j \<leftarrow> [i..<length s - 1]. even (j - i)] req"
proof (induction s i req rule: parseGet_loop.induct)
  case (1 s i req)
  show ?case
  proof (cases "i < length s - 1")
    case True
    have "parseGet_loop s i req =
          parseGet_loop s (i + 2) (AList.update (s ! i) (RequestParam (VString (s ! (i + 1)))) req)"
      using True by (subst parseGet_loop.simps) simp
    also have "\<dots> = fold (\<lambda>j. AList.update (s ! j) (RequestParam (VString (s ! (j + 1)))))
          [j \<leftarrow> [i + 2..<length s - 1]. even (j - (i + 2))]
          (AList.update (s ! i) (RequestParam (VString (s ! (i + 1)))) req)"
      by (rule "1.IH" [OF True])
    finally show ?thesis
      by (simp only: upt_filter_step [OF True] fold_simps)
  next
    case False
    then show ?thesis by (subst parseGet_loop.simps) simp
  qed
qed

lemma fold_update_last:
  "map_of (fold (\<lambda>j. AList.update (f j) (g j)) js al) k =
     (if [j \<leftarrow> js. f j = k] = [] then map_of al k
      else Some (g (last [j \<leftarrow> js. f j = k])))"
proof (induction js rule: rev_induct)
  case Nil
  then show ?case by simp
next
  case (snoc a js)
  then show ?case
    by (simp add: update_conv')
qed

text \<open>For an even number of segments, the loop indices are the even indices from 4 on.\<close>

lemma loop_indices_even:
  assumes "even l"
  shows "[j \<leftarrow> [4..<l - 1]. even (j - 4)] = [j \<leftarrow> [4..<l]. even j]"
proof (cases "4 < l")
  case True
  then obtain m where m: "l = Suc m" "4 \<le> m"
    by (cases l) auto
  have "[4..<l] = [4..<l - 1] @ [l - 1]"
    using m by simp
  moreover have "odd (l - 1)" using assms True by simp
  moreover have "[j \<leftarrow> [4..<l - 1]. even (j - 4)] = [j \<leftarrow> [4..<l - 1]. even j]"
    by (rule filter_cong) auto
  ultimately show ?thesis by simp
next
  case False
  then show ?thesis by simp
qed

lemma segments_sample_get:
  "segments (URL_Path sample_get) = [[], ''v1'', ''test'', ''retrieve'', ''id'', ''42'', ''id'', ''7'']"
  by (simp add: sample_get_def segments_def TrimRight_def EscapeString_def escape_byte_def)

lemma segments_sample_get_odd:
  "segments (URL_Path sample_get_odd) = [[], ''v1'', ''test'', ''retrieve'', ''id'']"
  by (simp add: sample_get_odd_def segments_def TrimRight_def EscapeString_def escape_byte_def)

lemma TrimRight_snoc:
  "TrimRight (xs @ [c]) [d] = (if c = d then TrimRight xs [d] else xs @ [c])"
  by (simp add: TrimRight_def)

lemma escape_byte_last: "c \<noteq> CHR ''/'' \<Longrightarrow> escape_byte c \<noteq> [] \<and> last (escape_byte c) \<noteq> CHR ''/''"
  by (simp add: escape_byte_def)

lemma TrimRight_append_keep:
  "ys \<noteq> [] \<Longrightarrow> last ys \<noteq> d \<Longrightarrow> TrimRight (xs @ ys) [d] = xs @ ys"
  by (cases ys rule: rev_cases) (simp_all add: TrimRight_def)

lemma escape_slash: "escape_byte CHR ''/'' = ''/''"
  by (simp add: escape_byte_def)

lemma EscapeString_TrimRight:
  "EscapeString (TrimRight p ''/'') = TrimRight (EscapeString p) ''/''"
proof (induction p rule: rev_induct)
  case Nil
  then show ?case by (simp add: EscapeString_def TrimRight_def)
next
  case (snoc c p)
  show ?case
  proof (cases "c = CHR ''/''")
    case True
    have "TrimRight (EscapeString (p @ [c])) ''/'' = TrimRight (EscapeString p @ ''/'') ''/''"
      by (simp add: EscapeString_def True escape_slash)
    also have "\<dots> = TrimRight (EscapeString p) ''/''"
      using TrimRight_snoc [of "EscapeString p" "CHR ''/''" "CHR ''/''"] by simp
    finally show ?thesis
      using snoc.IH True by (simp add: TrimRight_snoc)
  next
    case False
    have "TrimRight (EscapeString (p @ [c])) ''/'' = EscapeString p @ escape_byte c"
      using escape_byte_last [OF False]
      by (simp add: EscapeString_def TrimRight_append_keep)
    then show ?thesis
      using False by (simp add: TrimRight_snoc EscapeString_def)
  qed
qed

text \<open>
  Claim C1. The segments that the path parser of package \<open>router\<close> splits are those of
  the path, escaped and without its trailing slashes (the source trims, then escapes; the
  two orders give the same string). The parser fails, with the error "Not Found", exactly
  when the number of segments is at most 3 or odd. Otherwise it returns the first four
  segments joined by \<open>/\<close> as the route key, and the parameter map after the writes
  \<open>req[s[i]] = s[i+1]\<close> for \<open>i = 4, 6, ...\<close> in this order: a name is mapped to the value
  that follows its last occurrence, and a name that does not occur keeps what it had.
\<close>

theorem parseGet_route_key_and_params:
  fixes req :: "'f Request"
  shows "let s = segments (URL_Path r) in
     s = Split (TrimRight (EscapeString (URL_Path r)) ''/'') CHR ''/''
   \<and> (isl (parseGet r req) \<longleftrightarrow> (length s \<le> 3 \<or> odd (length s)))
   \<and> (isl (parseGet r req) \<longrightarrow> parseGet r req = Inl (New ''Not Found''))
   \<and> (\<not> isl (parseGet r req) \<longrightarrow>
        (\<exists>req'. parseGet r req = Inr (Join (take 4 s) ''/'', req')
           \<and> req' = fold (\<lambda>i. AList.update (s ! i) (RequestParam (VString (s ! (i + 1)))))
                       [i \<leftarrow> [4..<length s]. even i] req
           \<and> (\<forall>k. map_of req' k =
                 (if [i \<leftarrow> [4..<length s]. even i \<and> s ! i = k] = [] then map_of req k
                  else Some (RequestParam
                         (VString (s ! (last [i \<leftarrow> [4..<length s]. even i \<and> s ! i = k] + 1))))))))"
proof -
  define s where "s = segments (URL_Path r)"
  have ord: "s = Split (TrimRight (EscapeString (URL_Path r)) ''/'') CHR ''/''"
    by (simp add: s_def segments_def EscapeString_TrimRight)
  have fail: "isl (parseGet r req) \<longleftrightarrow> (length s \<le> 3 \<or> odd (length s))"
    by (auto simp: parseGet_def Let_def s_def odd_iff_mod_2_eq_one)
  have nf: "isl (parseGet r req) \<longrightarrow> parseGet r req = Inl (New ''Not Found'')"
    by (auto simp: parseGet_def Let_def)
  have ok: "\<not> isl (parseGet r req) \<longrightarrow>
      parseGet r req = Inr (Join (take 4 s) ''/'',
         fold (\<lambda>i. AList.update (s ! i) (RequestParam (VString (s ! (i + 1)))))
              [i \<leftarrow> [4..<length s]. even i] req)"
  proof
    assume a: "\<not> isl (parseGet r req)"
    then have ev: "even (length s)" using fail by simp
    have "parseGet r req = Inr (Join (take 4 s) ''/'', parseGet_loop s 4 req)"
      using a by (auto simp: parseGet_def Let_def s_def split: if_splits)
    moreover have "parseGet_loop s 4 req =
         fold (\<lambda>i. AList.update (s ! i) (RequestParam (VString (s ! (i + 1)))))
              [i \<leftarrow> [4..<length s]. even i] req"
      by (simp only: parseGet_loop_fold loop_indices_even [OF ev])
    ultimately show "parseGet r req = Inr (Join (take 4 s) ''/'',
         fold (\<lambda>i. AList.update (s ! i) (RequestParam (VString (s ! (i + 1)))))
              [i \<leftarrow> [4..<length s]. even i] req)"
      by simp
  qed
  have last_wins: "map_of (fold (\<lambda>i. AList.update (s ! i) (RequestParam (VString (s ! (i + 1)))))
              [i \<leftarrow> [4..<length s]. even i] req) k =
        (if [i \<leftarrow> [4..<length s]. even i \<and> s ! i = k] = [] then map_of req k
         else Some (RequestParam
                (VString (s ! (last [i \<leftarrow> [4..<length s]. even i \<and> s ! i = k] + 1)))))" for k
    by (simp add: fold_update_last [where f = "\<lambda>i. s ! i"] conj_commute)
  show ?thesis
    unfolding Let_def s_def [symmetric] using ord fail nf ok last_wins by blast
qed

theorem parseGet_route_key_and_params_witness:
  "\<not> isl (parseGet sample_get ([] :: unit Request))
   \<and> parseGet sample_get ([] :: unit Request) =
       Inr (''/v1/test/retrieve'', [(''id'', RequestParam (VString ''7''))])
   \<and> isl (parseGet sample_get_odd ([] :: unit Request))
   \<and> parseGet sample_get_odd ([] :: unit Request) = Inl (New ''Not Found'')"
  using parseGet_route_key_and_params [of sample_get "[] :: unit Request"]
        parseGet_route_key_and_params [of sample_get_odd "[] :: unit Request"]
  by (simp add: segments_sample_get segments_sample_get_odd Let_def upt_rec_numeral)

lemma TrimRight_append_cutset:
  "TrimRight (p @ replicate n c) [c] = TrimRight p [c]"
proof -
  have "dropWhile (\<lambda>x. x = c) (replicate n c @ xs) = dropWhile (\<lambda>x. x = c) xs" for xs
    by (induction n) simp_all
  then show ?thesis by (simp add: TrimRight_def)
qed

text \<open>
  Claim C10. Appending any number of \<open>/\<close> to the path changes neither the route key nor
  the parameter map that the path parser produces, in package \<open>router\<close> and in package
  \<open>go_router\<close> (where the parser may also panic, and then does so for both paths).
\<close>

theorem parseGet_trailing_slashes:
  "parseGet (r\<lparr>URL_Path := URL_Path r @ replicate n CHR ''/''\<rparr>) req = parseGet r req
   \<and> parseGet_go_router L (r\<lparr>URL_Path := URL_Path r @ replicate n CHR ''/''\<rparr>) req2
       = parseGet_go_router L r req2"
  by (simp add: parseGet_def parseGet_go_router_def segments_def TrimRight_append_cutset)

theorem parseGet_trailing_slashes_witness:
  "parseGet (sample_get\<lparr>URL_Path := URL_Path sample_get @ ''//''\<rparr>) ([] :: unit Request) =
     Inr (''/v1/test/retrieve'', [(''id'', RequestParam (VString ''7''))])"
proof -
  have e: "parseGet sample_get ([] :: unit Request) =
      Inr (''/v1/test/retrieve'', [(''id'', RequestParam (VString ''7''))])"
    by (simp add: parseGet_def segments_sample_get parseGet_loop.simps)
  have r: "replicate 2 CHR ''/'' = ''//''" by (simp add: numeral_2_eq_2)
  show ?thesis
    using parseGet_trailing_slashes [where r = sample_get and n = 2 and req = "[] :: unit Request"]
    unfolding r e by (rule conjunct1)
qed

section \<open>Properties of the type inference\<close>

lemma ParseInt_7: "ParseInt ''7'' = Inr 7"
  by (simp add: ParseInt_def is_digit_def digits_value_def)

lemma ParseInt_1: "ParseInt ''1'' = Inr 1"
  by (simp add: ParseInt_def is_digit_def digits_value_def)

lemma ParseInt_7_5: "isl (ParseInt ''7.5'')"
  by (simp add: ParseInt_def is_digit_def)

lemma ParseInt_true: "isl (ParseInt ''true'')"
  by (simp add: ParseInt_def is_digit_def)

lemma ParseInt_hello: "isl (ParseInt ''hello'')"
  by (simp add: ParseInt_def is_digit_def)

lemma ParseBool_true: "ParseBool ''true'' = Inr True"
  by (simp add: ParseBool_def)

lemma ParseBool_hello: "isl (ParseBool ''hello'')"
  by (simp add: ParseBool_def)

text \<open>
  Claim C2. \<open>toParam\<close> tries \<open>ParseInt\<close>, then \<open>ParseFloat\<close>, then \<open>ParseBool\<close>,
  and keeps the string otherwise; the first parse that succeeds decides. So \<open>"7"\<close> and
  \<open>"1"\<close> are integers whatever the later parsers say, \<open>"7.5"\<close> is the float that
  \<open>ParseFloat\<close> returns for it, and \<open>"true"\<close> is a boolean and \<open>"hello"\<close> a string
  since \<open>ParseFloat\<close> rejects them.
\<close>

theorem toParam_trial_order:
  "(\<forall>v. ParseInt s = Inr v \<longrightarrow> toParam L s = \<lparr>Type = INT_tag, Value_go_router = VInt64 v\<rparr>)
   \<and> (\<forall>v. isl (ParseInt s) \<and> ParseFloat L s = Inr v \<longrightarrow>
          toParam L s = \<lparr>Type = FLOAT_tag, Value_go_router = VFloat64 v\<rparr>)
   \<and> (\<forall>v. isl (ParseInt s) \<and> isl (ParseFloat L s) \<and> ParseBool s = Inr v \<longrightarrow>
          toParam L s = \<lparr>Type = BOOL_tag, Value_go_router = VBool v\<rparr>)
   \<and> (isl (ParseInt s) \<and> isl (ParseFloat L s) \<and> isl (ParseBool s) \<longrightarrow>
          toParam L s = \<lparr>Type = STRING_tag, Value_go_router = VString s\<rparr>)
   \<and> toParam L ''7'' = \<lparr>Type = INT_tag, Value_go_router = VInt64 7\<rparr>
   \<and> toParam L ''1'' = \<lparr>Type = INT_tag, Value_go_router = VInt64 1\<rparr>
   \<and> (\<forall>x. ParseFloat L ''7.5'' = Inr x \<longrightarrow>
          toParam L ''7.5'' = \<lparr>Type = FLOAT_tag, Value_go_router = VFloat64 x\<rparr>)
   \<and> (isl (ParseFloat L ''true'') \<longrightarrow>
          toParam L ''true'' = \<lparr>Type = BOOL_tag, Value_go_router = VBool True\<rparr>)
   \<and> (isl (ParseFloat L ''hello'') \<longrightarrow>
          toParam L ''hello'' = \<lparr>Type = STRING_tag, Value_go_router = VString ''hello''\<rparr>)"
proof -
  have order: "toParam L s =
      (case ParseInt s of Inr v \<Rightarrow> \<lparr>Type = INT_tag, Value_go_router = VInt64 v\<rparr>
       | Inl _ \<Rightarrow> (case ParseFloat L s of Inr v \<Rightarrow> \<lparr>Type = FLOAT_tag, Value_go_router = VFloat64 v\<rparr>
       | Inl _ \<Rightarrow> (case ParseBool s of Inr v \<Rightarrow> \<lparr>Type = BOOL_tag, Value_go_router = VBool v\<rparr>
       | Inl _ \<Rightarrow> \<lparr>Type = STRING_tag, Value_go_router = VString s\<rparr>)))" for s
    by (simp add: toParam_def)
  have a: "\<forall>v. ParseInt s = Inr v \<longrightarrow> toParam L s = \<lparr>Type = INT_tag, Value_go_router = VInt64 v\<rparr>"
    by (simp add: order)
  have b: "\<forall>v. isl (ParseInt s) \<and> ParseFloat L s = Inr v \<longrightarrow>
          toParam L s = \<lparr>Type = FLOAT_tag, Value_go_router = VFloat64 v\<rparr>"
    by (auto simp: order split: sum.splits)
  have c: "\<forall>v. isl (ParseInt s) \<and> isl (ParseFloat L s) \<and> ParseBool s = Inr v \<longrightarrow>
          toParam L s = \<lparr>Type = BOOL_tag, Value_go_router = VBool v\<rparr>"
    by (auto simp: order split: sum.splits)
  have d: "isl (ParseInt s) \<and> isl (ParseFloat L s) \<and> isl (ParseBool s) \<longrightarrow>
          toParam L s = \<lparr>Type = STRING_tag, Value_go_router = VString s\<rparr>"
    by (auto simp: order split: sum.splits)
  have e: "toParam L ''7'' = \<lparr>Type = INT_tag, Value_go_router = VInt64 7\<rparr>"
    by (simp add: order ParseInt_7)
  have f: "toParam L ''1'' = \<lparr>Type = INT_tag, Value_go_router = VInt64 1\<rparr>"
    by (simp add: order ParseInt_1)
  have g: "\<forall>x. ParseFloat L ''7.5'' = Inr x \<longrightarrow>
          toParam L ''7.5'' = \<lparr>Type = FLOAT_tag, Value_go_router = VFloat64 x\<rparr>"
    using ParseInt_7_5 by (auto simp: order split: sum.splits)
  have h: "isl (ParseFloat L ''true'') \<longrightarrow>
          toParam L ''true'' = \<lparr>Type = BOOL_tag, Value_go_router = VBool True\<rparr>"
    using ParseInt_true by (auto simp: order ParseBool_true split: sum.splits)
  have i: "isl (ParseFloat L ''hello'') \<longrightarrow>
          toParam L ''hello'' = \<lparr>Type = STRING_tag, Value_go_router = VString ''hello''\<rparr>"
    using ParseInt_hello ParseBool_hello by (auto simp: order split: sum.splits)
  show ?thesis using a b c d e f g h i by (intro conjI)
qed

lemma sample_ParseFloat_7_5: "ParseFloat sample_lib ''7.5'' = Inr (75, 1)"
  by (simp add: sample_lib_def sample_ParseFloat_def is_digit_def digits_value_def)

lemma sample_ParseFloat_true: "isl (ParseFloat sample_lib ''true'')"
  by (simp add: sample_lib_def sample_ParseFloat_def is_digit_def)

lemma sample_ParseFloat_hello: "isl (ParseFloat sample_lib ''hello'')"
  by (simp add: sample_lib_def sample_ParseFloat_def is_digit_def)

theorem toParam_trial_order_witness:
  "ParseFloat sample_lib ''7.5'' = Inr (75, 1)
   \<and> toParam sample_lib ''7.5'' = \<lparr>Type = FLOAT_tag, Value_go_router = VFloat64 (75, 1)\<rparr>
   \<and> isl (ParseFloat sample_lib ''true'')
   \<and> toParam sample_lib ''true'' = \<lparr>Type = BOOL_tag, Value_go_router = VBool True\<rparr>
   \<and> isl (ParseFloat sample_lib ''hello'')
   \<and> toParam sample_lib ''hello'' = \<lparr>Type = STRING_tag, Value_go_router = VString ''hello''\<rparr>
   \<and> ParseInt ''7'' = Inr 7
   \<and> toParam sample_lib ''7'' = \<lparr>Type = INT_tag, Value_go_router = VInt64 7\<rparr>"
  using toParam_trial_order [of "''7''" sample_lib]
        sample_ParseFloat_7_5 sample_ParseFloat_true sample_ParseFloat_hello ParseInt_7
  by simp

section \<open>Properties of the accessors\<close>

text \<open>
  Claim C6 as the specification states it fails on the boolean accessor: on a stored
  int64 (and on a stored float64) it returns the error "Not Found".
\<close>

theorem bool_accessor_rejects_numbers:
  "RequestParam_bool (RequestParam (VInt64 1 :: unit iface)) = Inl (New ''Not Found'')
   \<and> RequestParam_bool (RequestParam (VFloat64 ())) = Inl (New ''Not Found'')"
  by simp

text \<open>
  Claim C6, amended. The integer and the float accessor succeed on a stored int64 or
  float64, converting as needed, and on a stored string exactly when it parses; the boolean
  accessor succeeds on a stored bool, and on a stored string exactly when it parses. An
  accessor returns an error only when the parse of the string fails (the error of the
  parser) or when the stored kind is outside its own set (the error "Not Found").
\<close>

theorem accessors_by_storage:
  "(isl (RequestParam_int L p) =
      (case Value p of VString s \<Rightarrow> isl (ParseInt s) | VInt64 n \<Rightarrow> False | VFloat64 x \<Rightarrow> False
       | _ \<Rightarrow> True))
   \<and> (isl (RequestParam_float L p) =
      (case Value p of VString s \<Rightarrow> isl (ParseFloat L s) | VInt64 n \<Rightarrow> False
       | VFloat64 x \<Rightarrow> False | _ \<Rightarrow> True))
   \<and> (isl (RequestParam_bool p) =
      (case Value p of VString s \<Rightarrow> isl (ParseBool s) | VBool b \<Rightarrow> False | _ \<Rightarrow> True))
   \<and> (\<forall>s. Value p = VString s \<longrightarrow>
         RequestParam_int L p = ParseInt s \<and> RequestParam_float L p = ParseFloat L s
         \<and> RequestParam_bool p = ParseBool s)
   \<and> (\<forall>n. Value p = VInt64 n \<longrightarrow>
         RequestParam_int L p = Inr n \<and> RequestParam_float L p = Inr (float64_of_int64 L n))
   \<and> (\<forall>x. Value p = VFloat64 x \<longrightarrow>
         RequestParam_int L p = Inr (int64_of_float64 L x) \<and> RequestParam_float L p = Inr x)
   \<and> (\<forall>b. Value p = VBool b \<longrightarrow> RequestParam_bool p = Inr b)
   \<and> ((\<forall>s. Value p \<noteq> VString s) \<and> isl (RequestParam_int L p) \<longrightarrow>
         RequestParam_int L p = Inl (New ''Not Found''))
   \<and> ((\<forall>s. Value p \<noteq> VString s) \<and> isl (RequestParam_float L p) \<longrightarrow>
         RequestParam_float L p = Inl (New ''Not Found''))
   \<and> ((\<forall>s. Value p \<noteq> VString s) \<and> isl (RequestParam_bool p) \<longrightarrow>
         RequestParam_bool p = Inl (New ''Not Found''))"
proof (cases p)
  case (RequestParam v)
  then show ?thesis by (cases v) simp_all
qed

theorem accessors_by_storage_witness:
  "Value (RequestParam (VBool True :: (nat \<times> nat) iface)) = VBool True
   \<and> RequestParam_bool (RequestParam (VBool True :: (nat \<times> nat) iface)) = Inr True
   \<and> (\<forall>s. Value (RequestParam (VBool True :: (nat \<times> nat) iface)) \<noteq> VString s)
   \<and> isl (RequestParam_int sample_lib (RequestParam (VBool True :: (nat \<times> nat) iface)))
   \<and> RequestParam_int sample_lib (RequestParam (VBool True :: (nat \<times> nat) iface)) = Inl (New ''Not Found'')"
proof -
  let ?p = "RequestParam (VBool True :: (nat \<times> nat) iface)"
  have v: "Value ?p = VBool True" by simp
  have s: "\<forall>s. Value ?p \<noteq> VString s" by simp
  note inst = accessors_by_storage [of sample_lib ?p]
  have i: "isl (RequestParam_int sample_lib ?p)"
    using inst [THEN conjunct1] by (simp only: v iface.case)
  show ?thesis
    using inst v s i by blast
qed

section \<open>Properties of the route registry\<close>

lemma registered_getNode: "registered rs m p \<longleftrightarrow> \<not> isl (getNode rs m p)"
  by (auto simp: registered_def getNode_def split: option.splits)

lemma getNode_error: "isl (getNode rs m p) \<Longrightarrow> getNode rs m p = Inl (New ''No Handler Found'')"
  by (auto simp: getNode_def split: option.splits)

lemma RegisterRoute_registered:
  "registered rs m p \<Longrightarrow> RegisterRoute m p n rs = Inl (New ''Route path has already been registered'')"
  by (simp add: RegisterRoute_def)

lemma RegisterRoute_fresh:
  assumes "\<not> registered rs m p"
  shows "\<exists>rs'. RegisterRoute m p n rs = Inr rs'
           \<and> (\<forall>m' p'. getNode rs' m' p' = (if m' = m \<and> p' = p then Inr n else getNode rs m' p'))"
proof (cases "rs m")
  case None
  then have "RegisterRoute m p n rs = Inr (rs(m \<mapsto> Map.empty(p \<mapsto> n)))"
    using assms by (simp add: RegisterRoute_def)
  moreover have "getNode (rs(m \<mapsto> Map.empty(p \<mapsto> n))) m' p' =
      (if m' = m \<and> p' = p then Inr n else getNode rs m' p')" for m' p'
    using None by (simp add: getNode_def)
  ultimately show ?thesis by blast
next
  case (Some nodes)
  then have np: "nodes p = None"
    using assms by (simp add: registered_def)
  have "RegisterRoute m p n rs = Inr (rs(m \<mapsto> nodes(p \<mapsto> n)))"
    using assms Some by (simp add: RegisterRoute_def)
  moreover have "getNode (rs(m \<mapsto> nodes(p \<mapsto> n))) m' p' =
      (if m' = m \<and> p' = p then Inr n else getNode rs m' p')" for m' p'
    using Some np by (simp add: getNode_def)
  ultimately show ?thesis by blast
qed

lemma getNode_RegisterRoutes:
  "getNode (RegisterRoutes calls rs) m p =
     (case getNode rs m p of
        Inr n \<Rightarrow> Inr n
      | Inl e \<Rightarrow>
          (case [c \<leftarrow> calls. fst c = m \<and> fst (snd c) = p] of
             [] \<Rightarrow> Inl (New ''No Handler Found'')
           | c # cs \<Rightarrow> Inr (snd (snd c))))"
proof (induction calls arbitrary: rs)
  case Nil
  then show ?case
    using getNode_error [of rs m p] by (auto split: sum.splits)
next
  case (Cons c calls)
  obtain m0 p0 n0 where c: "c = (m0, p0, n0)" by (cases c) auto
  show ?case
  proof (cases "registered rs m0 p0")
    case True
    then have "RegisterRoutes (c # calls) rs = RegisterRoutes calls rs"
      by (simp add: c RegisterRoute_registered)
    moreover have "m0 = m \<and> p0 = p \<Longrightarrow> \<not> isl (getNode rs m p)"
      using True by (simp add: registered_getNode)
    ultimately show ?thesis
      by (auto simp: Cons.IH c split: sum.splits)
  next
    case False
    from RegisterRoute_fresh [OF False, of n0] obtain rs' where
      rs': "RegisterRoute m0 p0 n0 rs = Inr rs'"
      "\<And>m' p'. getNode rs' m' p' = (if m' = m0 \<and> p' = p0 then Inr n0 else getNode rs m' p')"
      by blast
    have "RegisterRoutes (c # calls) rs = RegisterRoutes calls rs'"
      by (simp add: c rs'(1))
    moreover have "m0 = m \<and> p0 = p \<Longrightarrow> isl (getNode rs m p)"
      using False by (simp add: registered_getNode)
    ultimately show ?thesis
      by (auto simp: Cons.IH c rs'(2) split: sum.splits)
  qed
qed

text \<open>
  Claim C9. After a successful \<open>RegisterRoute\<close> for a method and a path, a second call
  for the same pair fails, whatever the handler; a call for the same path under another
  method, not registered before, succeeds, and both handlers are then found. After any
  sequence of calls on the empty registry, the handler found for a method and a path is the
  one of the first call for this pair: no later call replaces it.
\<close>

theorem RegisterRoute_first_wins:
  "(\<forall>rs'. RegisterRoute m p n rs = Inr rs' \<longrightarrow>
       RegisterRoute m p n' rs' = Inl (New ''Route path has already been registered''))
   \<and> (\<forall>rs'. RegisterRoute m p n rs = Inr rs' \<and> m' \<noteq> m \<and> \<not> registered rs m' p \<longrightarrow>
         (\<exists>rs''. RegisterRoute m' p n' rs' = Inr rs''
            \<and> getNode rs'' m p = Inr n \<and> getNode rs'' m' p = Inr n'))
   \<and> getNode (RegisterRoutes calls Map.empty) m p =
        (case [c \<leftarrow> calls. fst c = m \<and> fst (snd c) = p] of
           [] \<Rightarrow> Inl (New ''No Handler Found'')
         | c # cs \<Rightarrow> Inr (snd (snd c)))"
proof (intro conjI allI impI)
  fix rs'
  assume a: "RegisterRoute m p n rs = Inr rs'"
  then have nr: "\<not> registered rs m p"
    by (auto simp: RegisterRoute_def split: if_splits)
  from RegisterRoute_fresh [OF nr, of n] a
  have g: "\<And>m' p'. getNode rs' m' p' = (if m' = m \<and> p' = p then Inr n else getNode rs m' p')"
    by auto
  then have "registered rs' m p" by (simp add: registered_getNode)
  then show "RegisterRoute m p n' rs' = Inl (New ''Route path has already been registered'')"
    by (rule RegisterRoute_registered)
next
  fix rs'
  assume a: "RegisterRoute m p n rs = Inr rs' \<and> m' \<noteq> m \<and> \<not> registered rs m' p"
  then have nr: "\<not> registered rs m p"
    by (auto simp: RegisterRoute_def split: if_splits)
  from RegisterRoute_fresh [OF nr, of n] a
  have g: "\<And>m'' p'. getNode rs' m'' p' = (if m'' = m \<and> p' = p then Inr n else getNode rs m'' p')"
    by auto
  have "\<not> registered rs' m' p" using a by (simp add: registered_getNode g)
  from RegisterRoute_fresh [OF this, of n'] obtain rs'' where
    "RegisterRoute m' p n' rs' = Inr rs''"
    "\<And>m'' p'. getNode rs'' m'' p' = (if m'' = m' \<and> p' = p then Inr n' else getNode rs' m'' p')"
    by blast
  then show "\<exists>rs''. RegisterRoute m' p n' rs' = Inr rs''
            \<and> getNode rs'' m p = Inr n \<and> getNode rs'' m' p = Inr n'"
    using a g by auto
next
  show "getNode (RegisterRoutes calls Map.empty) m p =
        (case [c \<leftarrow> calls. fst c = m \<and> fst (snd c) = p] of
           [] \<Rightarrow> Inl (New ''No Handler Found'')
         | c # cs \<Rightarrow> Inr (snd (snd c)))"
    by (simp add: getNode_RegisterRoutes) (simp add: getNode_def)
qed

theorem RegisterRoute_first_wins_witness:
  "(\<exists>rs'. RegisterRoute ''GET'' ''/v1/test/retrieve'' (1 :: nat) Map.empty = Inr rs'
      \<and> RegisterRoute ''GET'' ''/v1/test/retrieve'' 2 rs' =
           Inl (New ''Route path has already been registered'')
      \<and> \<not> registered (Map.empty :: nat routeMap) ''POST'' ''/v1/test/retrieve''
      \<and> (\<exists>rs''. RegisterRoute ''POST'' ''/v1/test/retrieve'' 2 rs' = Inr rs''
            \<and> getNode rs'' ''GET'' ''/v1/test/retrieve'' = Inr 1
            \<and> getNode rs'' ''POST'' ''/v1/test/retrieve'' = Inr 2))
   \<and> getNode (RegisterRoutes [(''GET'', ''/v1/test/retrieve'', 1 :: nat), (''POST'', ''/v1/test/retrieve'', 2),
        (''GET'', ''/v1/test/retrieve'', 3)] Map.empty) ''GET'' ''/v1/test/retrieve'' = Inr 1"
proof -
  let ?calls = "[(''GET'', ''/v1/test/retrieve'', 1 :: nat), (''POST'', ''/v1/test/retrieve'', 2), (''GET'', ''/v1/test/retrieve'', 3)]"
  note inst = RegisterRoute_first_wins [of "''GET''" "''/v1/test/retrieve''" "1 :: nat" Map.empty 2
            "''POST''" ?calls]
  have f: "\<not> registered (Map.empty :: nat routeMap) x y" for x y
    by (simp add: registered_def)
  obtain rs' where rs': "RegisterRoute ''GET'' ''/v1/test/retrieve'' (1 :: nat) Map.empty = Inr rs'"
    using RegisterRoute_fresh [OF f] by blast
  have a: "RegisterRoute ''GET'' ''/v1/test/retrieve'' 2 rs' =
           Inl (New ''Route path has already been registered'')"
    using inst rs' by blast
  have b: "\<exists>rs''. RegisterRoute ''POST'' ''/v1/test/retrieve'' 2 rs' = Inr rs''
            \<and> getNode rs'' ''GET'' ''/v1/test/retrieve'' = Inr 1
            \<and> getNode rs'' ''POST'' ''/v1/test/retrieve'' = Inr 2"
    using inst rs' f [of "''POST''" "''/v1/test/retrieve''"] by simp
  have c: "getNode (RegisterRoutes ?calls Map.empty) ''GET'' ''/v1/test/retrieve'' = Inr 1"
  proof -
    have "[c \<leftarrow> ?calls. fst c = ''GET'' \<and> fst (snd c) = ''/v1/test/retrieve'']
        = [(''GET'', ''/v1/test/retrieve'', 1), (''GET'', ''/v1/test/retrieve'', 3)]"
      by simp
    then show ?thesis
      using inst [THEN conjunct2, THEN conjunct2] by (simp only: list.case snd_conv)
  qed
  show ?thesis
    using rs' a b c f [of "''POST''" "''/v1/test/retrieve''"] by blast
qed

section \<open>Properties of the response writer\<close>

lemma Header_Set_fields [simp]:
  "Status (Header_Set k v w) = Status w" "Written (Header_Set k v w) = Written w"
  by (simp_all add: Header_Set_def)

lemma Write_fields:
  "Status (Write b w) = Some (case Status w of None \<Rightarrow> 200 | Some c \<Rightarrow> c)"
  "Written (Write b w) = Written w @ b"
  by (simp_all add: Write_def WriteHeader_def Let_def split: option.splits)

lemma notFound_fields:
  "Status (notFound w) = Some (case Status w of None \<Rightarrow> 404 | Some c \<Rightarrow> c)"
  "Written (notFound w) = Written w @ ''Resource Not Found.'' @ [CHR 0x0A]"
  by (simp_all add: notFound_def Write_def WriteHeader_def Let_def StatusNotFound_def
      split: option.splits)

lemma notSupported_fields:
  "Status (notSupported w) = Some (case Status w of None \<Rightarrow> 404 | Some c \<Rightarrow> c)"
  "Written (notSupported w) = Written w @ ''Request Method  is not supported.'' @ [CHR 0x0A]"
  by (simp_all add: notSupported_def Write_def WriteHeader_def Let_def StatusNotFound_def
      split: option.splits)

lemma internalError_fields:
  "Status (internalError w) = Some (case Status w of None \<Rightarrow> 500 | Some c \<Rightarrow> c)"
  "Written (internalError w) = Written w @ ''Internal Server Error.'' @ [CHR 0x0A]"
  by (simp_all add: internalError_def Write_def WriteHeader_def Let_def
      StatusInternalServerError_def split: option.splits)

section \<open>Properties of the filter chain\<close>

lemma preDispatch_cases:
  fixes evs :: "'c event list" and req :: 'a
  assumes "preDispatch fs r req = (e, r', req', evs)"
  shows "(e = None \<and> evs = pre_ok fs)
       \<or> (\<exists>err fs1 n f fs2. e = Some err \<and> fs = fs1 @ (n, f) # fs2
             \<and> evs = pre_ok fs1 @ [Pre n (Some err)])"
  using assms
proof (induction fs arbitrary: r req e r' req' evs)
  case Nil
  then show ?case by (simp add: pre_ok_def)
next
  case (Cons a fs)
  obtain n f where a: "a = (n, f)" by (cases a) auto
  obtain r1 req1 e1 where h: "PreDispatch f r req = (r1, req1, e1)"
    by (cases "PreDispatch f r req") auto
  show ?case
  proof (cases e1)
    case (Some err)
    then have "e = Some err" "evs = [Pre n (Some err)]"
      using Cons.prems a h by auto
    then have "e = Some err \<and> a # fs = [] @ (n, f) # fs \<and> evs = pre_ok [] @ [Pre n (Some err)]"
      by (simp add: a pre_ok_def)
    then show ?thesis by blast
  next
    case None
    obtain e2 r2 req2 evs2 where rec: "preDispatch fs r1 req1 = (e2, r2, req2, evs2 :: 'c event list)"
      by (cases "preDispatch fs r1 req1 :: error option \<times> http_request \<times> 'a \<times> 'c event list") auto
    then have res: "e = e2" "evs = Pre n None # evs2"
      using Cons.prems a h None by auto
    from Cons.IH [OF rec] show ?thesis
    proof
      assume "e2 = None \<and> evs2 = pre_ok fs"
      then show ?thesis using res by (simp add: a pre_ok_def)
    next
      assume "\<exists>err fs1 n f fs2. e2 = Some err \<and> fs = fs1 @ (n, f) # fs2
             \<and> evs2 = pre_ok fs1 @ [Pre n (Some err)]"
      then obtain err fs1 n' f' fs2 where
        x: "e2 = Some err" "fs = fs1 @ (n', f') # fs2" "evs2 = pre_ok fs1 @ [Pre n' (Some err)]"
        by blast
      have "e = Some err \<and> a # fs = (a # fs1) @ (n', f') # fs2
            \<and> evs = pre_ok (a # fs1) @ [Pre n' (Some err)]"
        using x res by (simp add: a pre_ok_def)
      then show ?thesis by blast
    qed
  qed
qed

lemma postDispatch_cases:
  fixes evs :: "'c event list" and req :: 'a
  assumes "postDispatch fs r req = (e, r', req', evs)"
  shows "(e = None \<and> evs = post_ok fs)
       \<or> (\<exists>err fs1 n f fs2. e = Some err \<and> fs = fs1 @ (n, f) # fs2
             \<and> evs = post_ok fs1 @ [Post n (Some err)])"
  using assms
proof (induction fs arbitrary: r req e r' req' evs)
  case Nil
  then show ?case by (simp add: post_ok_def)
next
  case (Cons a fs)
  obtain n f where a: "a = (n, f)" by (cases a) auto
  obtain r1 req1 e1 where h: "PostDispatch f r req = (r1, req1, e1)"
    by (cases "PostDispatch f r req") auto
  show ?case
  proof (cases e1)
    case (Some err)
    then have "e = Some err" "evs = [Post n (Some err)]"
      using Cons.prems a h by auto
    then have "e = Some err \<and> a # fs = [] @ (n, f) # fs \<and> evs = post_ok [] @ [Post n (Some err)]"
      by (simp add: a post_ok_def)
    then show ?thesis by blast
  next
    case None
    obtain e2 r2 req2 evs2 where rec: "postDispatch fs r1 req1 = (e2, r2, req2, evs2 :: 'c event list)"
      by (cases "postDispatch fs r1 req1 :: error option \<times> http_request \<times> 'a \<times> 'c event list") auto
    then have res: "e = e2" "evs = Post n None # evs2"
      using Cons.prems a h None by auto
    from Cons.IH [OF rec] show ?thesis
    proof
      assume "e2 = None \<and> evs2 = post_ok fs"
      then show ?thesis using res by (simp add: a post_ok_def)
    next
      assume "\<exists>err fs1 n f fs2. e2 = Some err \<and> fs = fs1 @ (n, f) # fs2
             \<and> evs2 = post_ok fs1 @ [Post n (Some err)]"
      then obtain err fs1 n' f' fs2 where
        x: "e2 = Some err" "fs = fs1 @ (n', f') # fs2" "evs2 = post_ok fs1 @ [Post n' (Some err)]"
        by blast
      have "e = Some err \<and> a # fs = (a # fs1) @ (n', f') # fs2
            \<and> evs = post_ok (a # fs1) @ [Post n' (Some err)]"
        using x res by (simp add: a post_ok_def)
      then show ?thesis by blast
    qed
  qed
qed

section \<open>The outcomes of Dispatch in package router\<close>

text \<open>
  The results of the three parts of \<open>Dispatch\<close>, case by case, and the twelve ways in
  which a dispatch ends.
\<close>

lemma Dispatch_bound_cases:
  assumes "Dispatch_bound J G r i t req w = (res, w', evs)"
  shows "(\<exists>err fs1 n f fs2. res = Inl (PanicError err) \<and> w' = w
            \<and> filters_pre G = fs1 @ (n, f) # fs2 \<and> evs = pre_ok fs1 @ [Pre n (Some err)])
       \<or> (\<exists>err. res = Inl (PanicError err) \<and> w' = w \<and> snd (Call i t) = Some err
            \<and> evs = pre_ok (filters_pre G) @ [Invoke t (Some err)])
       \<or> (\<exists>err fs1 n f fs2. res = Inl (PanicError err) \<and> w' = w
            \<and> filters_post G = fs1 @ (n, f) # fs2
            \<and> evs = pre_ok (filters_pre G) @ [Invoke t None] @ post_ok fs1 @ [Post n (Some err)])
       \<or> (\<exists>err. res = Inl (PanicError err) \<and> w' = w
            \<and> Marshal J (fst (Call i t)) = Inl err
            \<and> evs = pre_ok (filters_pre G) @ [Invoke t None] @ post_ok (filters_post G)
                    @ [Serialize (Some err)])
       \<or> (\<exists>data. res = Inr () \<and> w' = Write data w \<and> Marshal J (fst (Call i t)) = Inr data
            \<and> evs = pre_ok (filters_pre G) @ [Invoke t None] @ post_ok (filters_post G)
                    @ [Serialize None])"
proof -
  obtain e1 r1 req1 pre where
    p: "preDispatch (filters_pre G) r (parseForm r req) = (e1, r1, req1, pre :: 'a container event list)"
    by (cases "preDispatch (filters_pre G) r (parseForm r req)
          :: error option \<times> http_request \<times> 'a Request \<times> 'a container event list") auto
  note pc = preDispatch_cases [OF p]
  show ?thesis
  proof (cases e1)
    case (Some err)
    then have "res = Inl (PanicError err)" "w' = w" "evs = pre"
      using assms p by (auto simp: Dispatch_bound_def)
    then show ?thesis using pc Some by auto
  next
    case None
    then have pre: "pre = pre_ok (filters_pre G)" using pc by auto
    obtain out herr where c: "Call i t = (out, herr)" by (cases "Call i t") auto
    show ?thesis
    proof (cases herr)
      case (Some err)
      then have "res = Inl (PanicError err)" "w' = w" "evs = pre @ [Invoke t (Some err)]"
        using assms p c None by (auto simp: Dispatch_bound_def)
      then show ?thesis using pre c Some by auto
    next
      case hn: None
      obtain e2 r2 req2 post where
        q: "postDispatch (filters_post G) r1 req1 = (e2, r2, req2, post :: 'a container event list)"
        by (cases "postDispatch (filters_post G) r1 req1
              :: error option \<times> http_request \<times> 'a Request \<times> 'a container event list") auto
      note qc = postDispatch_cases [OF q]
      show ?thesis
      proof (cases e2)
        case (Some err)
        then have "res = Inl (PanicError err)" "w' = w" "evs = pre @ [Invoke t None] @ post"
          using assms p c None hn q by (auto simp: Dispatch_bound_def)
        then show ?thesis using pre qc Some by auto
      next
        case pn: None
        then have post: "post = post_ok (filters_post G)" using qc by auto
        show ?thesis
        proof (cases "Marshal J out")
          case (Inl err)
          then have "res = Inl (PanicError err)" "w' = w"
            "evs = pre @ [Invoke t None] @ post @ [Serialize (Some err)]"
            using assms p c None hn q pn by (auto simp: Dispatch_bound_def)
          then show ?thesis using pre post c Inl by auto
        next
          case (Inr data)
          then have "res = Inr ()" "w' = Write data w"
            "evs = pre @ [Invoke t None] @ post @ [Serialize None]"
            using assms p c None hn q pn by (auto simp: Dispatch_bound_def)
          then show ?thesis using pre post c Inr by auto
        qed
      qed
    qed
  qed
qed

lemma Dispatch_routed_cases:
  assumes "Dispatch_routed L J G r key req w = (res, w', evs)"
  shows "(isl (getNode (routes G) (Method r) key) \<and> res = Inr () \<and> w' = notFound w
            \<and> evs = [Lookup (Method r) key])
       \<or> (\<exists>c p. getNode (routes G) (Method r) key = Inr c \<and> setInputParam L G c req = Inl p
            \<and> res = Inl p \<and> w' = w \<and> evs = [Lookup (Method r) key])
       \<or> (\<exists>c err. getNode (routes G) (Method r) key = Inr c
            \<and> setInputParam L G c req = Inr (Inl err)
            \<and> res = Inr () \<and> w' = notFound w \<and> evs = [Lookup (Method r) key])
       \<or> (\<exists>c t evs'. getNode (routes G) (Method r) key = Inr c
            \<and> setInputParam L G c req = Inr (Inr t)
            \<and> Dispatch_bound J G r c t req w = (res, w', evs')
            \<and> evs = Lookup (Method r) key # evs')"
  using assms
  by (auto simp: Dispatch_routed_def split: sum.splits prod.splits)

lemma Dispatch_body_cases:
  fixes evs :: "'f container event list"
  assumes "Dispatch_body L J G r w = (res, w', evs)"
  shows "(\<exists>err. ParseForm r = Some err \<and> res = Inl (PanicError err) \<and> w' = w \<and> evs = [])
       \<or> (ParseForm r = None \<and> Method r \<in> {''GET'', ''DELETE''}
            \<and> isl (parseGet r ([] :: 'f Request)) \<and> res = Inr () \<and> w' = notFound w \<and> evs = [])
       \<or> (\<exists>err. ParseForm r = None \<and> Method r = ''POST'' \<and> parseBody J r [] = Inl err
            \<and> res = Inl (PanicError err) \<and> w' = w \<and> evs = [])
       \<or> (ParseForm r = None \<and> Method r \<noteq> ''GET'' \<and> Method r \<noteq> ''DELETE''
            \<and> Method r \<noteq> ''POST'' \<and> res = Inr () \<and> w' = notSupported w \<and> evs = [])
       \<or> (\<exists>key req. ParseForm r = None \<and> parsed J r key req
            \<and> Dispatch_routed L J G r key req w = (res, w', evs))"
  using assms
  by (auto simp: Dispatch_body_def parsed_def split: option.splits sum.splits if_splits)

lemma Dispatch_outcome:
  fixes L :: "'f golib" and J :: "('f, 'r) json"
  obtains
    (form_error) err
      where "ParseForm r = Some err"
      and "Dispatch L J G w r =
        \<lparr>response = internalError (Header_Set ''Content-Type'' JSON w), trace = [],
         recovered = Some (PanicError err)\<rparr>"
  | (path_error)
      "ParseForm r = None"
      and "Method r \<in> {''GET'', ''DELETE''}"
      and "isl (parseGet r ([] :: 'f Request))"
      and "Dispatch L J G w r =
        \<lparr>response = notFound (Header_Set ''Content-Type'' JSON w), trace = [],
         recovered = None\<rparr>"
  | (body_error) err
      where "ParseForm r = None"
      and "Method r = ''POST''"
      and "parseBody J r ([] :: 'f Request) = Inl err"
      and "Dispatch L J G w r =
        \<lparr>response = internalError (Header_Set ''Content-Type'' JSON w), trace = [],
         recovered = Some (PanicError err)\<rparr>"
  | (method_error)
      "ParseForm r = None"
      and "Method r \<noteq> ''GET''"
      and "Method r \<noteq> ''DELETE''"
      and "Method r \<noteq> ''POST''"
      and "Dispatch L J G w r =
        \<lparr>response = notSupported (Header_Set ''Content-Type'' JSON w), trace = [],
         recovered = None\<rparr>"
  | (no_route) key req
      where "ParseForm r = None" and "parsed J r key req"
      and "isl (getNode (routes G) (Method r) key)"
      and "Dispatch L J G w r =
        \<lparr>response = notFound (Header_Set ''Content-Type'' JSON w), trace = [Lookup (Method r) key],
         recovered = None\<rparr>"
  | (bind_panic) key req c p
      where "ParseForm r = None" and "parsed J r key req"
      and "getNode (routes G) (Method r) key = Inr c"
      and "setInputParam L G c req = Inl p"
      and "Dispatch L J G w r =
        \<lparr>response = internalError (Header_Set ''Content-Type'' JSON w), trace = [Lookup (Method r) key],
         recovered = Some p\<rparr>"
  | (bind_error) key req c err
      where "ParseForm r = None" and "parsed J r key req"
      and "getNode (routes G) (Method r) key = Inr c"
      and "setInputParam L G c req = Inr (Inl err)"
      and "Dispatch L J G w r =
        \<lparr>response = notFound (Header_Set ''Content-Type'' JSON w), trace = [Lookup (Method r) key],
         recovered = None\<rparr>"
  | (pre_error) key req c t err fs1 n f fs2
      where "ParseForm r = None" and "parsed J r key req"
      and "getNode (routes G) (Method r) key = Inr c" and "setInputParam L G c req = Inr (Inr t)"
      and "filters_pre G = fs1 @ (n, f) # fs2"
      and "Dispatch L J G w r =
        \<lparr>response = internalError (Header_Set ''Content-Type'' JSON w), trace = Lookup (Method r) key # pre_ok fs1 @ [Pre n (Some err)],
         recovered = Some (PanicError err)\<rparr>"
  | (handler_error) key req c t err
      where "ParseForm r = None" and "parsed J r key req"
      and "getNode (routes G) (Method r) key = Inr c" and "setInputParam L G c req = Inr (Inr t)"
      and "snd (Call c t) = Some err"
      and "Dispatch L J G w r =
        \<lparr>response = internalError (Header_Set ''Content-Type'' JSON w), trace = Lookup (Method r) key # pre_ok (filters_pre G) @ [Invoke t (Some err)],
         recovered = Some (PanicError err)\<rparr>"
  | (post_error) key req c t err fs1 n f fs2
      where "ParseForm r = None" and "parsed J r key req"
      and "getNode (routes G) (Method r) key = Inr c" and "setInputParam L G c req = Inr (Inr t)"
      and "filters_post G = fs1 @ (n, f) # fs2"
      and "Dispatch L J G w r =
        \<lparr>response = internalError (Header_Set ''Content-Type'' JSON w), trace = Lookup (Method r) key # pre_ok (filters_pre G) @ [Invoke t None] @ post_ok fs1
                   @ [Post n (Some err)],
         recovered = Some (PanicError err)\<rparr>"
  | (marshal_error) key req c t err
      where "ParseForm r = None" and "parsed J r key req"
      and "getNode (routes G) (Method r) key = Inr c" and "setInputParam L G c req = Inr (Inr t)"
      and "Marshal J (fst (Call c t)) = Inl err"
      and "Dispatch L J G w r =
        \<lparr>response = internalError (Header_Set ''Content-Type'' JSON w), trace = Lookup (Method r) key # pre_ok (filters_pre G) @ [Invoke t None]
                   @ post_ok (filters_post G) @ [Serialize (Some err)],
         recovered = Some (PanicError err)\<rparr>"
  | (served) key req c t data
      where "ParseForm r = None" and "parsed J r key req"
      and "getNode (routes G) (Method r) key = Inr c" and "setInputParam L G c req = Inr (Inr t)"
      and "Marshal J (fst (Call c t)) = Inr data"
      and "Dispatch L J G w r =
        \<lparr>response = Write data (Header_Set ''Content-Type'' JSON w), trace = Lookup (Method r) key # pre_ok (filters_pre G) @ [Invoke t None]
                   @ post_ok (filters_post G) @ [Serialize None],
         recovered = None\<rparr>"
proof -
  let ?w = "Header_Set ''Content-Type'' JSON w"
  obtain res w' evs where
    b: "Dispatch_body L J G r ?w = (res, w', evs :: 'f container event list)"
    by (cases "Dispatch_body L J G r ?w
          :: (panic + unit) \<times> ResponseWriter \<times> 'f container event list") auto
  have out: "Dispatch L J G w r =
      (case res of Inl p \<Rightarrow> \<lparr>response = internalError w', trace = evs, recovered = Some p\<rparr>
       | Inr u \<Rightarrow> \<lparr>response = w', trace = evs, recovered = None\<rparr>)"
    by (simp add: Dispatch_def b split: sum.splits)
  from Dispatch_body_cases [OF b] show thesis
  proof (elim disjE exE conjE)
    fix err
    assume "ParseForm r = Some err" "res = Inl (PanicError err)" "w' = ?w" "evs = []"
    then show thesis using form_error [of err] out by simp
  next
    assume "ParseForm r = None" "Method r \<in> {''GET'', ''DELETE''}"
      "isl (parseGet r ([] :: 'f Request))" "res = Inr ()" "w' = notFound ?w" "evs = []"
    then show thesis using path_error out by simp
  next
    fix err
    assume "ParseForm r = None" "Method r = ''POST''" "parseBody J r ([] :: 'f Request) = Inl err"
      "res = Inl (PanicError err)" "w' = ?w" "evs = []"
    then show thesis using body_error [of err] out by simp
  next
    assume "ParseForm r = None" "Method r \<noteq> ''GET''" "Method r \<noteq> ''DELETE''"
      "Method r \<noteq> ''POST''" "res = Inr ()" "w' = notSupported ?w" "evs = []"
    then show thesis using method_error out by simp
  next
    fix key and req :: "'f Request"
    assume p: "ParseForm r = None" "parsed J r key req"
      and rt: "Dispatch_routed L J G r key req ?w = (res, w', evs)"
    from Dispatch_routed_cases [OF rt] show thesis
    proof (elim disjE exE conjE)
      assume "isl (getNode (routes G) (Method r) key)" "res = Inr ()" "w' = notFound ?w"
        "evs = [Lookup (Method r) key]"
      then show thesis using no_route [OF p] out by simp
    next
      fix c p'
      assume "getNode (routes G) (Method r) key = Inr c" "setInputParam L G c req = Inl p'"
        "res = Inl p'" "w' = ?w" "evs = [Lookup (Method r) key]"
      then show thesis using bind_panic [OF p, of c p'] out by simp
    next
      fix c err
      assume "getNode (routes G) (Method r) key = Inr c"
        "setInputParam L G c req = Inr (Inl err)" "res = Inr ()" "w' = notFound ?w"
        "evs = [Lookup (Method r) key]"
      then show thesis using bind_error [OF p, of c err] out by simp
    next
      fix c t evs'
      assume g: "getNode (routes G) (Method r) key = Inr c"
        "setInputParam L G c req = Inr (Inr t)"
        and bd: "Dispatch_bound J G r c t req ?w = (res, w', evs')"
        and ev: "evs = Lookup (Method r) key # evs'"
      from Dispatch_bound_cases [OF bd] show thesis
      proof (elim disjE exE conjE)
        fix err fs1 n f fs2
        assume "res = Inl (PanicError err)" "w' = ?w" "filters_pre G = fs1 @ (n, f) # fs2"
          "evs' = pre_ok fs1 @ [Pre n (Some err)]"
        then show thesis using pre_error [OF p g, of fs1 n f fs2 err] out ev by simp
      next
        fix err
        assume "res = Inl (PanicError err)" "w' = ?w" "snd (Call c t) = Some err"
          "evs' = pre_ok (filters_pre G) @ [Invoke t (Some err)]"
        then show thesis using handler_error [OF p g, of err] out ev by simp
      next
        fix err fs1 n f fs2
        assume "res = Inl (PanicError err)" "w' = ?w" "filters_post G = fs1 @ (n, f) # fs2"
          "evs' = pre_ok (filters_pre G) @ [Invoke t None] @ post_ok fs1 @ [Post n (Some err)]"
        then show thesis using post_error [OF p g, of fs1 n f fs2 err] out ev by simp
      next
        fix err
        assume "res = Inl (PanicError err)" "w' = ?w" "Marshal J (fst (Call c t)) = Inl err"
          "evs' = pre_ok (filters_pre G) @ [Invoke t None] @ post_ok (filters_post G)
             @ [Serialize (Some err)]"
        then show thesis using marshal_error [OF p g, of err] out ev by simp
      next
        fix data
        assume "res = Inr ()" "w' = Write data ?w" "Marshal J (fst (Call c t)) = Inr data"
          "evs' = pre_ok (filters_pre G) @ [Invoke t None] @ post_ok (filters_post G)
             @ [Serialize None]"
        then show thesis using served [OF p g, of data] out ev by simp
      qed
    qed
  qed
qed

section \<open>Filters and fatal failures\<close>

lemma pre_ok_no_error [simp]: "Pre n (Some e) \<notin> set (pre_ok fs)"
  "Post n x \<notin> set (pre_ok fs)" "Invoke t y \<notin> set (pre_ok fs)" "Serialize z \<notin> set (pre_ok fs)"
  "Lookup m k \<notin> set (pre_ok fs)"
  by (auto simp: pre_ok_def)

lemma post_ok_no_error [simp]: "Post n (Some e) \<notin> set (post_ok fs)"
  "Pre n x \<notin> set (post_ok fs)" "Invoke t y \<notin> set (post_ok fs)" "Serialize z \<notin> set (post_ok fs)"
  "Lookup m k \<notin> set (post_ok fs)"
  by (auto simp: post_ok_def)

text \<open>
  Claim C5. In package \<open>router\<close>, when the pre-dispatch hook of a filter returns an error
  during a dispatch, the events of the dispatch are the route lookup, the hooks of the
  filters visited before it, which returned no error, and this hook: no hook of a later
  filter, no call of the handler and no post-dispatch hook. The response is the 500 of
  \<open>internalError\<close>.
\<close>

theorem pre_dispatch_failure_aborts:
  assumes "Status w = None"
    and "Pre name (Some err) \<in> set (trace (Dispatch L J G w r))"
  shows "\<exists>key fs1 f fs2. filters_pre G = fs1 @ (name, f) # fs2
           \<and> trace (Dispatch L J G w r) =
               Lookup (Method r) key # pre_ok fs1 @ [Pre name (Some err)]
           \<and> (\<forall>t e. Invoke t e \<notin> set (trace (Dispatch L J G w r)))
           \<and> (\<forall>n e. Post n e \<notin> set (trace (Dispatch L J G w r)))
           \<and> recovered (Dispatch L J G w r) = Some (PanicError err)
           \<and> Status (response (Dispatch L J G w r)) = Some 500
           \<and> Written (response (Dispatch L J G w r)) =
               Written w @ ''Internal Server Error.'' @ [CHR 0x0A]"
proof (rule Dispatch_outcome [where L = L and J = J and G = G and w = w and r = r])
  fix key req c t err' fs1 n f fs2
  assume fp: "filters_pre G = fs1 @ (n, f) # fs2"
    and out: "Dispatch L J G w r =
        \<lparr>response = internalError (Header_Set ''Content-Type'' JSON w),
         trace = Lookup (Method r) key # pre_ok fs1 @ [Pre n (Some err')],
         recovered = Some (PanicError err')\<rparr>"
  from assms(2) have "n = name" "err' = err"
    by (simp_all add: out)
  then show ?thesis
    using fp out assms(1) by (auto simp: internalError_fields)
qed (use assms in \<open>simp_all\<close>)

text \<open>The sample requests, run through \<open>Dispatch\<close>.\<close>

lemmas model_defs =
  Dispatch_def Dispatch_body_def Dispatch_routed_def Dispatch_bound_def
  parseGet_def segments_def TrimRight_def EscapeString_def escape_byte_def
  parseGet_loop.simps parseForm_def parseBody_def getNode_def setInputParam_def
  Header_Set_def WriteHeader_def Write_def notFound_def notSupported_def
  internalError_def StatusNotFound_def StatusInternalServerError_def JSON_def
  ParseInt_def is_digit_def digits_value_def ParseBool_def

lemmas sample_defs =
  sample_json_def sample_body_def new_writer_def sample_node_def
  pass_filter_def deny_filter_def sample_routes_def sample_globals_def
  sample_globals_deny_def sample_get_form_def sample_get_path_def sample_post_def
  sample_put_def sample_put_bad_form_def

lemma upperFirst_sample:
  "upperFirst sample_lib ''id'' = ''Id''" "upperFirst sample_lib ''name'' = ''Name''"
  by code_simp+

lemma run_deny:
  "Dispatch sample_lib sample_json sample_globals_deny new_writer sample_get_form =
     \<lparr>response = \<lparr>Header = [(''Content-Type'', ''application/json'')], Status = Some 500,
                   Written = ''Internal Server Error.'' @ [CHR 0x0A]\<rparr>,
      trace = [Lookup ''GET'' ''/v1/test/retrieve'', Pre ''log'' None,
               Pre ''auth'' (Some (New ''denied''))],
      recovered = Some (PanicError (New ''denied''))\<rparr>"
  by (simp add: model_defs sample_defs upperFirst_sample Let_def)

lemma run_get_form:
  "Dispatch sample_lib sample_json sample_globals new_writer sample_get_form =
     \<lparr>response = \<lparr>Header = [(''Content-Type'', ''application/json'')], Status = Some 200,
                   Written = ''user''\<rparr>,
      trace = [Lookup ''GET'' ''/v1/test/retrieve'', Pre ''log'' None, Invoke [] None,
               Post ''log'' None, Serialize None],
      recovered = None\<rparr>"
  by (simp add: model_defs sample_defs upperFirst_sample Let_def)

lemma run_get_path:
  "Dispatch sample_lib sample_json sample_globals new_writer sample_get_path =
     \<lparr>response = \<lparr>Header = [(''Content-Type'', ''application/json'')], Status = Some 200,
                   Written = ''user''\<rparr>,
      trace = [Lookup ''GET'' ''/v1/test/retrieve'', Pre ''log'' None,
               Invoke [(''Id'', VInt64 5)] None, Post ''log'' None, Serialize None],
      recovered = None\<rparr>"
  by (simp add: model_defs sample_defs upperFirst_sample Let_def)

lemma run_post:
  "Dispatch sample_lib sample_json sample_globals new_writer sample_post =
     \<lparr>response = \<lparr>Header = [(''Content-Type'', ''application/json'')], Status = Some 500,
                   Written = ''Internal Server Error.'' @ [CHR 0x0A]\<rparr>,
      trace = [Lookup ''POST'' ''/v1/test/save''],
      recovered = Some (RuntimeError ''interface conversion: interface {} is not string'')\<rparr>"
  by (simp add: model_defs sample_defs upperFirst_sample Let_def)

lemma run_put:
  "Dispatch sample_lib sample_json sample_globals new_writer sample_put =
     \<lparr>response = \<lparr>Header = [(''Content-Type'', ''application/json'')], Status = Some 404,
                   Written = ''Request Method  is not supported.'' @ [CHR 0x0A]\<rparr>,
      trace = [], recovered = None\<rparr>"
  by (simp add: model_defs sample_defs upperFirst_sample Let_def)

lemma run_put_bad_form:
  "Dispatch sample_lib sample_json sample_globals new_writer sample_put_bad_form =
     \<lparr>response = \<lparr>Header = [(''Content-Type'', ''application/json'')], Status = Some 500,
                   Written = ''Internal Server Error.'' @ [CHR 0x0A]\<rparr>,
      trace = [], recovered = Some (PanicError (LibError ''invalid URL escape''))\<rparr>"
  by (simp add: model_defs sample_defs upperFirst_sample Let_def)

theorem pre_dispatch_failure_aborts_witness:
  "Status new_writer = None
   \<and> Pre ''auth'' (Some (New ''denied''))
        \<in> set (trace (Dispatch sample_lib sample_json sample_globals_deny new_writer sample_get_form))
   \<and> trace (Dispatch sample_lib sample_json sample_globals_deny new_writer sample_get_form) =
        [Lookup ''GET'' ''/v1/test/retrieve'', Pre ''log'' None, Pre ''auth'' (Some (New ''denied''))]
   \<and> Status (response (Dispatch sample_lib sample_json sample_globals_deny new_writer
        sample_get_form)) = Some 500"
proof -
  have a: "Status new_writer = None" by (simp add: new_writer_def)
  have b: "Pre ''auth'' (Some (New ''denied''))
        \<in> set (trace (Dispatch sample_lib sample_json sample_globals_deny new_writer sample_get_form))"
    by (simp add: run_deny)
  from pre_dispatch_failure_aborts [OF a b] have
    "Status (response (Dispatch sample_lib sample_json sample_globals_deny new_writer
        sample_get_form)) = Some 500"
    by blast
  then show ?thesis using a b by (simp add: run_deny)
qed



section \<open>Unsupported methods\<close>

lemma Dispatch_filtered_go_router_writer:
  assumes "Dispatch_filtered_go_router J G r key req w = (res, w', evs)"
  shows "w' = w \<or> w' = notFound w \<or> (\<exists>data. w' = Write data w)"
  using assms
  by (auto simp: Dispatch_filtered_go_router_def split: prod.splits option.splits sum.splits)

lemma run_put_go_router:
  "Dispatch_go_router sample_lib sample_json sample_globals_go_router new_writer sample_put =
     \<lparr>response = \<lparr>Header = [(''Content-Type'', ''application/json'')], Status = Some 404,
                   Written = ''Request Method  is not supported.'' @ [CHR 0x0A]
                     @ ''Resource Not Found.'' @ [CHR 0x0A]\<rparr>,
      trace = [Pre ''log'' None, Lookup ''PUT'' []], recovered = None\<rparr>"
  by (simp add: Dispatch_go_router_def Dispatch_body_go_router_def
      Dispatch_filtered_go_router_def sample_globals_go_router_def model_defs sample_defs)




section \<open>Binding and the form\<close>

lemma parsed_Form [simp]: "parsed J (r\<lparr>Form := form\<rparr>) key req = parsed J r key req"
  by (simp add: parsed_def parseGet_def parseBody_def)

lemma parsed_functional:
  "parsed J r key req \<Longrightarrow> parsed J r key' req' \<Longrightarrow> key' = key \<and> req' = req"
  by (auto simp: parsed_def)

lemma Invoke_bound:
  assumes "Invoke t e \<in> set (trace (Dispatch L J G w r))"
  shows "\<exists>key req c. parsed J r key req \<and> getNode (routes G) (Method r) key = Inr c
           \<and> setInputParam L G c req = Inr (Inr t)"
  by (rule Dispatch_outcome [where L = L and J = J and G = G and w = w and r = r])
     (use assms in auto)

lemma parseForm_overwrites:
  "map_of (parseForm r req) k =
     (if [kv \<leftarrow> Form r. fst kv = k] = [] then map_of req k
      else Some (RequestParam (VString (snd (last [kv \<leftarrow> Form r. fst kv = k])))))"
  unfolding parseForm_def case_prod_unfold
  by (rule fold_update_last [of fst "\<lambda>kv. RequestParam (VString (snd kv))"])




section \<open>Failures of the binding\<close>

lemma binding_error_is_404:
  assumes "ParseForm r = None" and "parsed J r key req"
    and "getNode (routes G) (Method r) key = Inr c"
    and "setInputParam L G c req = Inr (Inl err)"
  shows "Dispatch L J G w r =
      \<lparr>response = notFound (Header_Set ''Content-Type'' JSON w),
       trace = [Lookup (Method r) key], recovered = None\<rparr>"
  by (rule Dispatch_outcome [where L = L and J = J and G = G and w = w and r = r])
     (use assms in \<open>auto simp: parsed_def dest: parsed_functional\<close>)

lemma binding_panic_is_500:
  assumes "ParseForm r = None" and "parsed J r key req"
    and "getNode (routes G) (Method r) key = Inr c"
    and "setInputParam L G c req = Inl p"
  shows "Dispatch L J G w r =
      \<lparr>response = internalError (Header_Set ''Content-Type'' JSON w),
       trace = [Lookup (Method r) key], recovered = Some p\<rparr>"
  by (rule Dispatch_outcome [where L = L and J = J and G = G and w = w and r = r])
     (use assms in \<open>auto simp: parsed_def dest: parsed_functional\<close>)

text \<open>
  Claim C7 holds when \<open>setInputParam\<close> returns an error (\<open>binding_error_is_404\<close>), but
  not for a value that is not a string and a field of kind string: the type assertion
  \<open>v.Value.(string)\<close> of line 237 panics, and the dispatch answers with the 500 of
  \<open>internalError\<close>. Here the body is \<open>{"name": 5}\<close> and the struct has a string field
  \<open>Name\<close>.
\<close>

theorem string_field_with_number_is_500:
  "Unmarshal sample_json sample_body = Inr [(''name'', VFloat64 (5, 0))]
   \<and> FieldByName sample_node (upperFirst sample_lib ''name'') = Some Kind_String
   \<and> setInputParam sample_lib sample_globals sample_node
        [(''name'', RequestParam (VFloat64 (5, 0)))] =
        Inl (RuntimeError ''interface conversion: interface {} is not string'')
   \<and> Dispatch sample_lib sample_json sample_globals new_writer sample_post =
       \<lparr>response = \<lparr>Header = [(''Content-Type'', ''application/json'')], Status = Some 500,
                     Written = ''Internal Server Error.'' @ [CHR 0x0A]\<rparr>,
        trace = [Lookup ''POST'' ''/v1/test/save''],
        recovered = Some (RuntimeError ''interface conversion: interface {} is not string'')\<rparr>"
  by (simp add: run_post upperFirst_sample)
     (simp add: sample_json_def sample_node_def setInputParam_def sample_globals_def
        upperFirst_sample)

end
